theory Spec2Isabelle
  imports Main
begin

section \<open>The oVirt cluster uninstaller (pkg/destroy/ovirt/destroyer.go)\<close>

subsection \<open>Errors, handles, the engine connection\<close>

text \<open>
  Modelled from the spec: the error values of the oVirt SDK, whose types are not part of
  the sources at hand. Every call of the external API "may fail with a distinguishable
  not-found condition", so the not-found error is a constructor of its own; every other
  error, and every error built with \<^verbatim>\<open>fmt.Errorf\<close>, is a \<open>PlainError\<close>. The
  string is what \<^verbatim>\<open>err.Error()\<close> prints, read by \<open>Error_text\<close> where a format has
  \<^verbatim>\<open>%s\<close> for an error.
\<close>

datatype error = NotFoundError string | PlainError string

fun Error_text :: "error \<Rightarrow> string" where
  "Error_text (NotFoundError m) = m"
| "Error_text (PlainError m) = m"

text \<open>
  Modelled from the spec: a resource handle (\<^verbatim>\<open>*ovirtsdk.Vm\<close>, \<^verbatim>\<open>Tag\<close>,
  \<^verbatim>\<open>Template\<close>, \<^verbatim>\<open>AffinityGroup\<close>) is an opaque identifier and a human-readable
  name. The SDK accessors \<^verbatim>\<open>MustId\<close> and \<^verbatim>\<open>MustName\<close> read them; a handle listed by
  the engine carries both.
\<close>

record resource =
  MustId :: string
  MustName :: string

text \<open>The requests that the uninstaller sends through the connection.\<close>

datatype VmStatus = VMSTATUS_DOWN

datatype call =
    Vms_List_Search string
  | Vm_Stop string
  | WaitForVM string VmStatus nat
  | Vm_Remove string
  | Tags_List
  | Tag_Remove string
  | Templates_List_Search string
  | Template_Remove string
  | AffinityGroups_List string
  | AffinityGroup_Remove string string
  | Close

text \<open>
  The connection is the external collaborator. Its answer to a request may depend on
  everything that was sent before, so each service takes the list of the earlier
  requests (oldest first) and the arguments of the request. A \<^verbatim>\<open>Send()\<close> that returns
  \<^verbatim>\<open>(response, err)\<close> is a sum, \<open>Inl\<close> the error; where the code looks at the
  response only for its error, the answer is \<open>error option\<close> (\<open>None\<close> is \<^verbatim>\<open>nil\<close>).
  The tag list response and the template list of a search response are tested for
  presence by the code, so they are options. The other lists are read with
  \<^verbatim>\<open>MustVms\<close>, \<^verbatim>\<open>MustTags\<close> and \<^verbatim>\<open>MustGroups\<close>: a list response that comes
  without an error carries its list.
\<close>

record Connection =
  vms_list_search :: "call list \<Rightarrow> string \<Rightarrow> error + resource list"
  vm_stop :: "call list \<Rightarrow> string \<Rightarrow> error option"
  wait_for_vm :: "call list \<Rightarrow> string \<Rightarrow> VmStatus \<Rightarrow> nat \<Rightarrow> error option"
  vm_remove :: "call list \<Rightarrow> string \<Rightarrow> error option"
  tags_list :: "call list \<Rightarrow> error + resource list option"
  tag_remove :: "call list \<Rightarrow> string \<Rightarrow> error option"
  templates_list_search :: "call list \<Rightarrow> string \<Rightarrow> error + resource list option"
  template_remove :: "call list \<Rightarrow> string \<Rightarrow> error option"
  affinity_groups_list :: "call list \<Rightarrow> string \<Rightarrow> error + resource list"
  affinity_group_remove :: "call list \<Rightarrow> string \<Rightarrow> string \<Rightarrow> error option"

text \<open>
  The observable state of a run: the requests sent so far and the lines written to the
  logger (\<^verbatim>\<open>logrus.FieldLogger\<close>), both oldest first.
\<close>

datatype level = DebugLevel | InfoLevel | WarnLevel | ErrorLevel

record world =
  calls :: "call list"
  logs :: "(level \<times> string) list"

definition send :: "call \<Rightarrow> world \<Rightarrow> world" where
  "send c w = w\<lparr>calls := calls w @ [c]\<rparr>"

definition logf :: "level \<Rightarrow> string \<Rightarrow> world \<Rightarrow> world" where
  "logf l m w = w\<lparr>logs := logs w @ [(l, m)]\<rparr>"

text \<open>\<^verbatim>\<open>%d\<close>: a natural number in decimal.\<close>

definition digit :: "nat \<Rightarrow> char" where
  "digit d = ''0123456789'' ! d"

function show_nat :: "nat \<Rightarrow> string" where
  "show_nat n = (if n < 10 then [digit n] else show_nat (n div 10) @ [digit (n mod 10)])"
  by pat_completeness auto
termination
  by (relation "measure id") auto

declare show_nat.simps [simp del]

definition Second :: nat where
  "Second = 1000000000"

definition Minute :: nat where
  "Minute = 60 * Second"

text \<open>\<^verbatim>\<open>strings.HasPrefix(s, prefix)\<close>\<close>

definition HasPrefix :: "string \<Rightarrow> string \<Rightarrow> bool" where
  "HasPrefix s p = (length p \<le> length s \<and> take (length p) s = p)"

text \<open>
  \<^verbatim>\<open>types.ClusterMetadata\<close>, with the two fields of its \<^verbatim>\<open>Ovirt\<close> part that the
  uninstaller reads. The uninstaller's logger is the log of the world.
\<close>

record ClusterMetadata =
  InfraID :: string
  ClusterID :: string
  RemoveTemplate :: bool

subsection \<open>Stopping and removing one VM\<close>

definition waitForDownDuration :: nat where
  "waitForDownDuration = Minute * 10"

definition stopVM :: "Connection \<Rightarrow> resource \<Rightarrow> world \<Rightarrow> world" where
  "stopVM con vm w =
     (let err = vm_stop con (calls w) (MustId vm);
          w1 = send (Vm_Stop (MustId vm)) w;
          w2 = (case err of
                  None \<Rightarrow> logf InfoLevel (''Stopping VM '' @ MustName vm) w1
                | Some e \<Rightarrow> logf ErrorLevel
                    (''Failed to stop VM '' @ MustName vm @ '': '' @ Error_text e) w1);
          err2 = wait_for_vm con (calls w2) (MustId vm) VMSTATUS_DOWN waitForDownDuration;
          w3 = send (WaitForVM (MustId vm) VMSTATUS_DOWN waitForDownDuration) w2
      in (case err2 of
            None \<Rightarrow> logf InfoLevel (''VM '' @ MustName vm @ '' powered off'') w3
          | Some e \<Rightarrow> logf WarnLevel
              (''Waited '' @ show_nat waitForDownDuration @ '' for VM '' @ MustName vm
                 @ '' to power off: '' @ Error_text e) w3))"

definition removeVM :: "Connection \<Rightarrow> resource \<Rightarrow> world \<Rightarrow> world" where
  "removeVM con vm w =
     (let err = vm_remove con (calls w) (MustId vm);
          w1 = send (Vm_Remove (MustId vm)) w
      in (case err of
            None \<Rightarrow> logf InfoLevel (''Removing VM '' @ MustName vm) w1
          | Some e \<Rightarrow> logf ErrorLevel
              (''Failed to remove VM '' @ MustName vm @ '': '' @ Error_text e) w1))"

subsection \<open>The fan-out of removeVMs\<close>

text \<open>
  \<^verbatim>\<open>removeVMs\<close> starts one goroutine per VM; each runs \<^verbatim>\<open>stopVM\<close>, then
  \<^verbatim>\<open>removeVM\<close>, then \<^verbatim>\<open>wg.Done()\<close>, and \<^verbatim>\<open>wg.Wait()\<close> returns when all have
  finished. The goroutines interleave at the requests and the log lines, so the body of
  a goroutine is cut into its six steps: a task holds the VM, the step it is at, and the
  local variable \<^verbatim>\<open>err\<close>.
\<close>

datatype pc = StopSend | StopLog | WaitSend | WaitLog | RemoveSend | RemoveLog | Finished

record task =
  t_vm :: resource
  t_pc :: pc
  t_err :: "error option"

definition new_task :: "resource \<Rightarrow> task" where
  "new_task vm = \<lparr>t_vm = vm, t_pc = StopSend, t_err = None\<rparr>"

definition task_step :: "Connection \<Rightarrow> task \<Rightarrow> world \<Rightarrow> task \<times> world" where
  "task_step con t w =
     (let vm = t_vm t in
      case t_pc t of
        StopSend \<Rightarrow>
          (t\<lparr>t_pc := StopLog, t_err := vm_stop con (calls w) (MustId vm)\<rparr>,
           send (Vm_Stop (MustId vm)) w)
      | StopLog \<Rightarrow>
          (t\<lparr>t_pc := WaitSend\<rparr>,
           case t_err t of
             None \<Rightarrow> logf InfoLevel (''Stopping VM '' @ MustName vm) w
           | Some e \<Rightarrow> logf ErrorLevel
               (''Failed to stop VM '' @ MustName vm @ '': '' @ Error_text e) w)
      | WaitSend \<Rightarrow>
          (t\<lparr>t_pc := WaitLog,
             t_err := wait_for_vm con (calls w) (MustId vm) VMSTATUS_DOWN waitForDownDuration\<rparr>,
           send (WaitForVM (MustId vm) VMSTATUS_DOWN waitForDownDuration) w)
      | WaitLog \<Rightarrow>
          (t\<lparr>t_pc := RemoveSend\<rparr>,
           case t_err t of
             None \<Rightarrow> logf InfoLevel (''VM '' @ MustName vm @ '' powered off'') w
           | Some e \<Rightarrow> logf WarnLevel
               (''Waited '' @ show_nat waitForDownDuration @ '' for VM '' @ MustName vm
                  @ '' to power off: '' @ Error_text e) w)
      | RemoveSend \<Rightarrow>
          (t\<lparr>t_pc := RemoveLog, t_err := vm_remove con (calls w) (MustId vm)\<rparr>,
           send (Vm_Remove (MustId vm)) w)
      | RemoveLog \<Rightarrow>
          (t\<lparr>t_pc := Finished\<rparr>,
           case t_err t of
             None \<Rightarrow> logf InfoLevel (''Removing VM '' @ MustName vm) w
           | Some e \<Rightarrow> logf ErrorLevel
               (''Failed to remove VM '' @ MustName vm @ '': '' @ Error_text e) w)
      | Finished \<Rightarrow> (t, w))"

text \<open>The number of steps a task still has to take.\<close>

fun steps_left :: "pc \<Rightarrow> nat" where
  "steps_left StopSend = 6"
| "steps_left StopLog = 5"
| "steps_left WaitSend = 4"
| "steps_left WaitLog = 3"
| "steps_left RemoveSend = 2"
| "steps_left RemoveLog = 1"
| "steps_left Finished = 0"

text \<open>One goroutine run to its end with nothing in between.\<close>

fun task_run :: "Connection \<Rightarrow> nat \<Rightarrow> task \<Rightarrow> world \<Rightarrow> world" where
  "task_run con 0 t w = w"
| "task_run con (Suc n) t w = (case task_step con t w of (t', w') \<Rightarrow> task_run con n t' w')"

definition task_finish :: "Connection \<Rightarrow> task \<Rightarrow> world \<Rightarrow> world" where
  "task_finish con t w = task_run con (steps_left (t_pc t)) t w"

text \<open>
  The scheduler. Which goroutine moves next is not decided by the program, so it is an
  input: a schedule is a list of task indices, and each entry lets that task take one
  step (an entry that names no task, or a finished one, is skipped). \<^verbatim>\<open>wg.Wait()\<close>
  returns only when every goroutine has called \<^verbatim>\<open>wg.Done()\<close>: when the schedule is
  used up, the tasks that are not finished run to their end, in order. Every
  interleaving of the goroutines is the run of some schedule.
\<close>

fun run_tasks :: "Connection \<Rightarrow> nat list \<Rightarrow> task list \<Rightarrow> world \<Rightarrow> world" where
  "run_tasks con [] ts w = fold (task_finish con) ts w"
| "run_tasks con (i # sched) ts w =
     (if i < length ts \<and> t_pc (ts ! i) \<noteq> Finished
      then (case task_step con (ts ! i) w of (t', w') \<Rightarrow> run_tasks con sched (ts[i := t']) w')
      else run_tasks con sched ts w)"

definition removeVMs :: "Connection \<Rightarrow> nat list \<Rightarrow> string \<Rightarrow> world \<Rightarrow> error option \<times> world" where
  "removeVMs con sched tag w =
     (let searchTerm = ''tag='' @ tag;
          w1 = logf DebugLevel (''Searching VMs by '' @ searchTerm) w;
          vmsResponse = vms_list_search con (calls w1) searchTerm;
          w2 = send (Vms_List_Search searchTerm) w1
      in case vmsResponse of
           Inl err \<Rightarrow> (Some err, w2)
         | Inr vms \<Rightarrow>
             (let w3 = logf DebugLevel (''Found '' @ show_nat (length vms) @ '' VMs'') w2
              in (None, run_tasks con sched (map new_task vms) w3)))"

subsection \<open>Tags, templates, affinity groups\<close>

fun removeTag_loop :: "Connection \<Rightarrow> string \<Rightarrow> resource list \<Rightarrow> world \<Rightarrow> error option \<times> world" where
  "removeTag_loop con tag [] w = (None, w)"
| "removeTag_loop con tag (t # ts) w =
     (if MustName t = tag
      then (let w1 = logf InfoLevel (''Removing tag '' @ MustName t) w;
                err = tag_remove con (calls w1) (MustId t);
                w2 = send (Tag_Remove (MustId t)) w1
            in case err of
                 Some e \<Rightarrow> (Some e, w2)
               | None \<Rightarrow> removeTag_loop con tag ts w2)
      else removeTag_loop con tag ts w)"

definition removeTag :: "Connection \<Rightarrow> string \<Rightarrow> world \<Rightarrow> error option \<times> world" where
  "removeTag con tag w =
     (let tagsServiceListResponse = tags_list con (calls w);
          w1 = send Tags_List w
      in case tagsServiceListResponse of
           Inl err \<Rightarrow> (Some err, w1)
         | Inr None \<Rightarrow> (None, w1)
         | Inr (Some ts) \<Rightarrow> removeTag_loop con tag ts w1)"

fun removeTemplate_loop :: "Connection \<Rightarrow> resource list \<Rightarrow> world \<Rightarrow> error option \<times> world" where
  "removeTemplate_loop con [] w = (None, w)"
| "removeTemplate_loop con (tmp # tmps) w =
     (let w1 = logf InfoLevel (''Removing Template '' @ MustName tmp) w;
          err = template_remove con (calls w1) (MustId tmp);
          w2 = send (Template_Remove (MustId tmp)) w1
      in case err of
           Some e \<Rightarrow> (Some e, w2)
         | None \<Rightarrow> removeTemplate_loop con tmps w2)"

definition removeTemplate :: "ClusterMetadata \<Rightarrow> Connection \<Rightarrow> world \<Rightarrow> error option \<times> world" where
  "removeTemplate uninstaller con w =
     (if RemoveTemplate uninstaller
      then (let name = ''name='' @ InfraID uninstaller @ ''-rhcos'';
                search = templates_list_search con (calls w) name;
                w1 = send (Templates_List_Search name) w
            in case search of
                 Inl err \<Rightarrow>
                   (Some (PlainError (''couldn't find a template with name '' @ InfraID uninstaller)), w1)
               | Inr None \<Rightarrow> (None, w1)
               | Inr (Some result) \<Rightarrow> removeTemplate_loop con result w1)
      else (None, w))"

fun removeAffinityGroups_loop :: "ClusterMetadata \<Rightarrow> Connection \<Rightarrow> resource list \<Rightarrow> world \<Rightarrow> world" where
  "removeAffinityGroups_loop uninstaller con [] w = w"
| "removeAffinityGroups_loop uninstaller con (ag # ags) w =
     (if HasPrefix (MustName ag) (InfraID uninstaller @ ''-'')
      then (let w1 = logf InfoLevel (''Removing AffinityGroup '' @ MustName ag) w;
                err = affinity_group_remove con (calls w1) (ClusterID uninstaller) (MustId ag);
                w2 = send (AffinityGroup_Remove (ClusterID uninstaller) (MustId ag)) w1;
                w3 = (case err of
                        Some e \<Rightarrow> logf ErrorLevel (''failed to remove AffinityGroup: '' @ Error_text e) w2
                      | None \<Rightarrow> w2)
            in removeAffinityGroups_loop uninstaller con ags w3)
      else removeAffinityGroups_loop uninstaller con ags w)"

definition removeAffinityGroups :: "ClusterMetadata \<Rightarrow> Connection \<Rightarrow> world \<Rightarrow> error option \<times> world" where
  "removeAffinityGroups uninstaller con w =
     (let cID = ClusterID uninstaller;
          res = affinity_groups_list con (calls w) cID;
          w1 = send (AffinityGroups_List cID) w
      in case res of
           Inl err \<Rightarrow> (Some err, w1)
         | Inr groups \<Rightarrow> (None, removeAffinityGroups_loop uninstaller con groups w1))"

subsection \<open>Run\<close>

text \<open>
  The loop over the two tags. Each round has its own schedule for the goroutines of
  \<^verbatim>\<open>removeVMs\<close>; a missing schedule is the empty one.
\<close>

fun Run_tags :: "Connection \<Rightarrow> string list \<Rightarrow> nat list list \<Rightarrow> world \<Rightarrow> world" where
  "Run_tags con [] scheds w = w"
| "Run_tags con (tag # tags) scheds w =
     (let (err, w1) = removeVMs con (case scheds of [] \<Rightarrow> [] | s # _ \<Rightarrow> s) tag w;
          w2 = (case err of
                  Some e \<Rightarrow> logf ErrorLevel (''failed to remove VMs: '' @ Error_text e) w1
                | None \<Rightarrow> w1);
          (err', w3) = removeTag con tag w2;
          w4 = (case err' of
                  Some e \<Rightarrow> logf ErrorLevel (''failed to remove tag: '' @ Error_text e) w3
                | None \<Rightarrow> w3)
      in Run_tags con tags (tl scheds) w4)"

text \<open>
  \<^verbatim>\<open>ovirt.NewConnection()\<close> is an input: the error, or the connection. The result of
  \<^verbatim>\<open>Run\<close> is the pair \<^verbatim>\<open>(*types.ClusterQuota, error)\<close>; the quota is always
  \<^verbatim>\<open>nil\<close>, and no field of it is read. The deferred \<^verbatim>\<open>con.Close()\<close> is the
  last request.
\<close>

type_synonym ClusterQuota = unit

definition Run ::
  "ClusterMetadata \<Rightarrow> error + Connection \<Rightarrow> nat list list \<Rightarrow> world \<Rightarrow> (ClusterQuota option \<times> error option) \<times> world" where
  "Run uninstaller NewConnection scheds w =
     (case NewConnection of
        Inl err \<Rightarrow>
          ((None, Some (PlainError (''failed to initialize connection to ovirt-engine's '' @ Error_text err))), w)
      | Inr con \<Rightarrow>
          (let tagVMs = InfraID uninstaller;
               tagVMbootstrap = InfraID uninstaller @ ''-bootstrap'';
               tags = [tagVMs, tagVMbootstrap];
               w1 = Run_tags con tags scheds w;
               (err, w2) = removeTemplate uninstaller con w1;
               w3 = (case err of
                       Some e \<Rightarrow> logf ErrorLevel (''Failed to remove template: '' @ Error_text e) w2
                     | None \<Rightarrow> w2);
               (err', w4) = removeAffinityGroups uninstaller con w3;
               w5 = (case err' of
                       Some e \<Rightarrow> logf ErrorLevel (''Failed to removing Affinity Groups: '' @ Error_text e) w4
                     | None \<Rightarrow> w4)
           in ((None, None), send Close w5)))"

section \<open>Metadata of the Alibaba Cloud install config (pkg/asset/installconfig/alibabacloud/metadata.go)\<close>

text \<open>
  The struct \<^verbatim>\<open>Metadata\<close>: the cached client (\<open>None\<close> is \<^verbatim>\<open>nil\<close>) and the
  region. The type of clients is a parameter.
\<close>

record 'c Metadata =
  client :: "'c option"
  Region :: string

definition NewMetadata :: "string \<Rightarrow> 'c Metadata" where
  "NewMetadata region = \<lparr>client = None, Region = region\<rparr>"

text \<open>
  \<^verbatim>\<open>NewClient\<close> is declared elsewhere in the package, so it is a parameter: from the
  regions it was called with before (oldest first) and the region, the pair
  \<^verbatim>\<open>(*Client, error)\<close> it returns. \<^verbatim>\<open>Client\<close> works on the \<^verbatim>\<open>Metadata\<close> behind its
  receiver pointer; the model returns the pair of results, the \<^verbatim>\<open>Metadata\<close> after the
  call, and the list of constructions after the call.
\<close>

definition Client ::
  "(string list \<Rightarrow> string \<Rightarrow> 'c option \<times> 'e option) \<Rightarrow> 'c Metadata \<Rightarrow> string list
     \<Rightarrow> ('c option \<times> 'e option) \<times> 'c Metadata \<times> string list" where
  "Client NewClient m built =
     (if client m = None
      then (case NewClient built (Region m) of
              (c, Some err) \<Rightarrow> ((None, Some err), m, built @ [Region m])
            | (c, None) \<Rightarrow> ((c, None), m\<lparr>client := c\<rparr>, built @ [Region m]))
      else ((client m, None), m, built))"

section \<open>The storage gateway service of the alicloud provider (service_alicloud_sgw.go)\<close>

subsection \<open>Responses, errors, the helpers of the package\<close>

text \<open>
  A response is a \<^verbatim>\<open>map[string]interface{}\<close> decoded from JSON: an association list,
  the \<^verbatim>\<open>nil\<close> map being the empty one. Indexing a map with a key it does not have gives
  the \<^verbatim>\<open>nil\<close> interface.
\<close>

datatype jvalue = JNil | JBool bool | JNumber int | JString string | JArray "jvalue list"
  | JObject "(string \<times> jvalue) list"

type_synonym response = "(string \<times> jvalue) list"

definition index :: "response \<Rightarrow> string \<Rightarrow> jvalue" where
  "index m k = (case map_of m k of None \<Rightarrow> JNil | Some v \<Rightarrow> v)"

text \<open>
  The errors. The wrappers \<^verbatim>\<open>WrapError\<close>, \<^verbatim>\<open>WrapErrorf\<close>, \<^verbatim>\<open>Error\<close> and the
  constants \<^verbatim>\<open>NotFoundMsg\<close>, \<^verbatim>\<open>DefaultErrorMsg\<close>, \<^verbatim>\<open>FailedGetAttributeMsg\<close>,
  \<^verbatim>\<open>ProviderERROR\<close>, \<^verbatim>\<open>AlibabaCloudSdkGoERROR\<close> are declared elsewhere in the package.
  An error is therefore the expression that the code builds: which wrapper, around which
  cause, with which message constant and arguments. \<open>SdkError\<close> is an error that comes
  from outside (the client constructor, \<^verbatim>\<open>DoRequest\<close>, \<^verbatim>\<open>jsonpath.Get\<close>).
\<close>

datatype ErrorSource = AlibabaCloudSdkGoERROR | ProviderERROR

datatype ErrorMsg = NotFoundMsg | DefaultErrorMsg | FailedGetAttributeMsg

datatype fmt_arg = Str string | Src ErrorSource | Resp response

datatype sgw_error =
    SdkError string
  | Error string
  | Errorf string "fmt_arg list"
  | WrapError sgw_error
  | WrapErrorf sgw_error ErrorMsg "fmt_arg list"

text \<open>
  The functions that are declared elsewhere and whose result the code branches on or
  passes along are parameters: the classifications \<^verbatim>\<open>NeedRetry\<close> and
  \<^verbatim>\<open>IsExpectedErrors\<close>, \<^verbatim>\<open>GetNotFoundMessage\<close>, \<^verbatim>\<open>fmt.Sprint\<close> on a value of a
  response, and \<^verbatim>\<open>jsonpath.Get\<close>.
\<close>

record helpers =
  NeedRetry :: "sgw_error \<Rightarrow> bool"
  IsExpectedErrors :: "sgw_error \<Rightarrow> string list \<Rightarrow> bool"
  GetNotFoundMessage :: "string \<Rightarrow> string \<Rightarrow> string"
  Sprint :: "jvalue \<Rightarrow> string"
  jsonpath_Get :: "string \<Rightarrow> response \<Rightarrow> sgw_error + jvalue"

text \<open>
  The arguments of \<^verbatim>\<open>conn.DoRequest\<close> that are not \<^verbatim>\<open>nil\<close>. The connection answers
  a request with the pair \<^verbatim>\<open>(response, err)\<close>; the answer may depend on the requests
  made before (oldest first).
\<close>

record Request =
  Action :: string
  Method :: string
  Version :: string
  AuthType :: string
  Body :: "(string \<times> string) list"
  Autoretry :: bool

type_synonym HcsSgwClient = "Request list \<Rightarrow> Request \<Rightarrow> response \<times> sgw_error option"

record AliyunClient =
  RegionId :: string
  NewHcsSgwClient :: "sgw_error + HcsSgwClient"

text \<open>
  The state that a call works on. Outside the call: the requests made, the durations
  slept (in nanoseconds, as \<^verbatim>\<open>time.Duration\<close> counts), the entries handed to
  \<^verbatim>\<open>addDebug\<close>. Inside the call: the variables that the retry closure shares with its
  function (\<^verbatim>\<open>response\<close>, \<^verbatim>\<open>err\<close>) and the counter of the \<^verbatim>\<open>wait\<close> closure.
\<close>

record frame =
  requests :: "Request list"
  slept :: "nat list"
  debug :: "(string \<times> response \<times> (string \<times> string) list) list"
  retryCount :: nat
  response :: response
  err :: "sgw_error option"

definition DoRequest :: "HcsSgwClient \<Rightarrow> Request \<Rightarrow> frame \<Rightarrow> (response \<times> sgw_error option) \<times> frame" where
  "DoRequest conn rq s = (conn (requests s) rq, s\<lparr>requests := requests s @ [rq]\<rparr>)"

definition addDebug :: "string \<Rightarrow> response \<Rightarrow> (string \<times> string) list \<Rightarrow> frame \<Rightarrow> frame" where
  "addDebug a r q s = s\<lparr>debug := debug s @ [(a, r, q)]\<rparr>"

text \<open>
  The clock of the model: time passes only while the code sleeps.
\<close>

definition now :: "frame \<Rightarrow> nat" where
  "now s = sum_list (slept s)"

text \<open>
  Modelled from the spec: \<^verbatim>\<open>incrementalWait\<close>, which is declared elsewhere in the
  package. "Wait between attempts increases by a fixed increment each retry (linear
  backoff), starting from a configured initial wait": the closure it returns sleeps the
  first duration when it is called for the first time, and one increment more on each
  later call.
\<close>

definition incrementalWait :: "nat \<Rightarrow> nat \<Rightarrow> frame \<Rightarrow> frame" where
  "incrementalWait firstDuration increaseDuration s =
     s\<lparr>slept := slept s @ [firstDuration + retryCount s * increaseDuration],
       retryCount := retryCount s + 1\<rparr>"

text \<open>
  Modelled from the spec: \<^verbatim>\<open>resource.Retry\<close> of the Terraform plugin SDK, which is
  not part of the sources at hand. It "wraps any single external call with at most a
  bounded total duration of retrying; only errors matching a retryable classification
  are retried; all other errors are surfaced immediately as terminal". The function it
  is given returns \<^verbatim>\<open>nil\<close>, a retryable error or a non-retryable error. A retryable
  error is retried as long as the deadline has not passed, and is returned once it has.
  The loop has no bound of its own on the number of rounds, so not returning is the
  value \<open>None\<close>.
\<close>

datatype RetryError = RetryableError sgw_error | NonRetryableError sgw_error

partial_function (option) Retry_loop ::
  "nat \<Rightarrow> (frame \<Rightarrow> RetryError option \<times> frame) \<Rightarrow> frame \<Rightarrow> (sgw_error option \<times> frame) option" where
  "Retry_loop deadline f s =
     (case f s of
        (None, s') \<Rightarrow> Some (None, s')
      | (Some (NonRetryableError e), s') \<Rightarrow> Some (Some e, s')
      | (Some (RetryableError e), s') \<Rightarrow>
          (if now s' < deadline then Retry_loop deadline f s' else Some (Some e, s')))"

definition Retry ::
  "nat \<Rightarrow> (frame \<Rightarrow> RetryError option \<times> frame) \<Rightarrow> frame \<Rightarrow> (sgw_error option \<times> frame) option" where
  "Retry timeout f s = Retry_loop (now s + timeout) f s"

text \<open>
  What a call gives back: the pair \<^verbatim>\<open>(object, err)\<close>, or the panic of the type
  assertion \<^verbatim>\<open>v.(map[string]interface{})\<close> on a value that is not a map.
\<close>

datatype 'a outcome = Returns 'a | Panics

subsection \<open>The describe functions\<close>

definition DescribeCloudStorageGatewayStorageBundle ::
  "helpers \<Rightarrow> AliyunClient \<Rightarrow> string \<Rightarrow> frame
     \<Rightarrow> (response option \<times> sgw_error option) outcome \<times> frame" where
  "DescribeCloudStorageGatewayStorageBundle h cl id' s =
     (case NewHcsSgwClient cl of
        Inl e \<Rightarrow> (Returns (None, Some (WrapError e)), s)
      | Inr conn \<Rightarrow>
          (let action = ''DescribeStorageBundle'';
               request = [(''RegionId'', RegionId cl), (''StorageBundleId'', id')];
               ((resp, e), s1) = DoRequest conn
                  \<lparr>Action = action, Method = ''POST'', Version = ''2018-05-11'', AuthType = ''AK'',
                   Body = request, Autoretry = True\<rparr> s
           in case e of
                Some er \<Rightarrow>
                  (if IsExpectedErrors h er [''StorageBundleNotExist'']
                   then (Returns (None, Some (WrapErrorf
                            (Error (GetNotFoundMessage h ''CloudStorageGatewayStorageBundle'' id'))
                            NotFoundMsg [Src ProviderERROR])), s1)
                   else (Returns (None, Some (WrapErrorf er DefaultErrorMsg
                            [Str id', Str action, Src AlibabaCloudSdkGoERROR])), s1))
              | None \<Rightarrow>
                  (let s2 = addDebug action resp request s1
                   in case jsonpath_Get h ''$'' resp of
                        Inl e' \<Rightarrow> (Returns (None, Some (WrapErrorf e' FailedGetAttributeMsg
                                    [Str id', Str ''$'', Resp resp])), s2)
                      | Inr v \<Rightarrow> (case v of
                                    JObject object \<Rightarrow> (Returns (Some object, None), s2)
                                  | _ \<Rightarrow> (Panics, s2)))))"

text \<open>
  The function that \<^verbatim>\<open>DescribeCloudStorageGatewayGateway\<close> hands to
  \<^verbatim>\<open>resource.Retry\<close>: one request; a retryable error waits before it is reported.
\<close>

definition DescribeCloudStorageGatewayGateway_attempt ::
  "helpers \<Rightarrow> HcsSgwClient \<Rightarrow> Request \<Rightarrow> frame \<Rightarrow> RetryError option \<times> frame" where
  "DescribeCloudStorageGatewayGateway_attempt h conn rq s =
     (let ((resp, e), s1) = DoRequest conn rq s;
          s2 = s1\<lparr>response := resp, err := e\<rparr>
      in case e of
           Some er \<Rightarrow>
             (if NeedRetry h er
              then (Some (RetryableError er), incrementalWait (3 * Second) (3 * Second) s2)
              else (Some (NonRetryableError er), s2))
         | None \<Rightarrow> (None, s2))"

definition DescribeCloudStorageGatewayGateway ::
  "helpers \<Rightarrow> AliyunClient \<Rightarrow> string \<Rightarrow> frame
     \<Rightarrow> ((response option \<times> sgw_error option) outcome \<times> frame) option" where
  "DescribeCloudStorageGatewayGateway h cl id' s =
     (let s0 = s\<lparr>response := [], err := None\<rparr>
      in case NewHcsSgwClient cl of
           Inl e \<Rightarrow> Some (Returns (None, Some (WrapError e)), s0\<lparr>err := Some e\<rparr>)
         | Inr conn \<Rightarrow>
             (let action = ''DescribeGateway'';
                  request = [(''GatewayId'', id')];
                  rq = \<lparr>Action = action, Method = ''POST'', Version = ''2018-05-11'',
                        AuthType = ''AK'', Body = request, Autoretry = True\<rparr>;
                  s1 = s0\<lparr>retryCount := 0\<rparr>
              in case Retry (5 * Minute) (DescribeCloudStorageGatewayGateway_attempt h conn rq) s1 of
                   None \<Rightarrow> None
                 | Some (e, s2) \<Rightarrow>
                     (let s3 = addDebug action (response s2) request (s2\<lparr>err := e\<rparr>)
                      in case e of
                           Some er \<Rightarrow>
                             (if IsExpectedErrors h er [''GatewayNotExist'']
                              then Some (Returns (None, Some (WrapErrorf
                                      (Error (GetNotFoundMessage h ''CloudStorageGateway:Gateway'' id'))
                                      NotFoundMsg
                                      [Src ProviderERROR,
                                       Str (Sprint h (index (response s3) ''RequestId''))])), s3)
                              else Some (Returns (None, Some (WrapErrorf er DefaultErrorMsg
                                      [Str id', Str action, Src AlibabaCloudSdkGoERROR])), s3))
                         | None \<Rightarrow>
                             (if Sprint h (index (response s3) ''Success'') = ''false''
                              then Some (Returns (None, Some (WrapError
                                      (Errorf ''%s failed, response: %v''
                                         [Str action, Resp (response s3)]))), s3)
                              else case jsonpath_Get h ''$'' (response s3) of
                                     Inl e' \<Rightarrow>
                                       Some (Returns (None, Some (WrapErrorf e' FailedGetAttributeMsg
                                          [Str id', Str ''$'', Resp (response s3)])),
                                          s3\<lparr>err := Some e'\<rparr>)
                                   | Inr v \<Rightarrow>
                                       (case v of
                                          JObject object \<Rightarrow> Some (Returns (Some object, None), s3)
                                        | _ \<Rightarrow> Some (Panics, s3))))))"

text \<open>The function that \<^verbatim>\<open>DescribeGateway\<close> hands to \<^verbatim>\<open>resource.Retry\<close>.\<close>

definition DescribeGateway_attempt ::
  "helpers \<Rightarrow> HcsSgwClient \<Rightarrow> Request \<Rightarrow> frame \<Rightarrow> RetryError option \<times> frame" where
  "DescribeGateway_attempt h conn rq s =
     (let ((resp, e), s1) = DoRequest conn rq s;
          s2 = s1\<lparr>response := resp, err := e\<rparr>
      in case e of
           Some er \<Rightarrow>
             (if NeedRetry h er
              then (Some (RetryableError er), incrementalWait (3 * Second) (3 * Second) s2)
              else (Some (NonRetryableError er), s2))
         | None \<Rightarrow> (None, s2))"

definition DescribeGateway ::
  "helpers \<Rightarrow> AliyunClient \<Rightarrow> string \<Rightarrow> frame
     \<Rightarrow> ((response option \<times> sgw_error option) outcome \<times> frame) option" where
  "DescribeGateway h cl id' s =
     (let s0 = s\<lparr>response := [], err := None\<rparr>
      in case NewHcsSgwClient cl of
           Inl e \<Rightarrow> Some (Returns (None, Some (WrapError e)), s0\<lparr>err := Some e\<rparr>)
         | Inr conn \<Rightarrow>
             (let action = ''DescribeGateway'';
                  request = [(''GatewayId'', id')];
                  rq = \<lparr>Action = action, Method = ''POST'', Version = ''2018-05-11'',
                        AuthType = ''AK'', Body = request, Autoretry = True\<rparr>;
                  s1 = s0\<lparr>retryCount := 0\<rparr>
              in case Retry (5 * Minute) (DescribeGateway_attempt h conn rq) s1 of
                   None \<Rightarrow> None
                 | Some (e, s2) \<Rightarrow>
                     (let s3 = addDebug action (response s2) request (s2\<lparr>err := e\<rparr>)
                      in case e of
                           Some er \<Rightarrow>
                             (if IsExpectedErrors h er [''GatewayNotExist'']
                              then Some (Returns (None, Some (WrapErrorf
                                      (Error (GetNotFoundMessage h ''CloudStorageGateway:Gateway'' id'))
                                      NotFoundMsg
                                      [Src ProviderERROR,
                                       Str (Sprint h (index (response s3) ''RequestId''))])), s3)
                              else Some (Returns (None, Some (WrapErrorf er DefaultErrorMsg
                                      [Str id', Str action, Src AlibabaCloudSdkGoERROR])), s3))
                         | None \<Rightarrow>
                             (if Sprint h (index (response s3) ''Success'') = ''false''
                              then Some (Returns (None, Some (WrapError
                                      (Errorf ''%s failed, response: %v''
                                         [Str action, Resp (response s3)]))), s3)
                              else case jsonpath_Get h ''$'' (response s3) of
                                     Inl e' \<Rightarrow>
                                       Some (Returns (None, Some (WrapErrorf e' FailedGetAttributeMsg
                                          [Str id', Str ''$'', Resp (response s3)])),
                                          s3\<lparr>err := Some e'\<rparr>)
                                   | Inr v \<Rightarrow>
                                       (case v of
                                          JObject object \<Rightarrow> Some (Returns (Some object, None), s3)
                                        | _ \<Rightarrow> Some (Panics, s3))))))"

section \<open>Notions used to state the properties\<close>

subsection \<open>Requests of the uninstaller\<close>

text \<open>The three requests that the goroutine of one VM sends, in the order it sends them.\<close>

definition vm_calls :: "resource \<Rightarrow> call list" where
  "vm_calls vm =
     [Vm_Stop (MustId vm), WaitForVM (MustId vm) VMSTATUS_DOWN waitForDownDuration,
      Vm_Remove (MustId vm)]"

text \<open>
  \<open>interleaved xss ys\<close>: the list \<open>ys\<close> is a merge of the lists \<open>xss\<close>. Every element
  of every list of \<open>xss\<close> occurs in \<open>ys\<close> once, and the elements of each list keep their
  order.
\<close>

fun interleaved :: "'a list list \<Rightarrow> 'a list \<Rightarrow> bool" where
  "interleaved xss [] = list_all (\<lambda>xs. xs = []) xss"
| "interleaved xss (y # ys) =
     list_ex (\<lambda>i. case xss ! i of [] \<Rightarrow> False | x # xs \<Rightarrow> x = y \<and> interleaved (xss[i := xs]) ys)
       [0..<length xss]"


text \<open>The requests and the number of log lines that a task has still to produce.\<close>

fun pending :: "pc \<Rightarrow> resource \<Rightarrow> call list" where
  "pending StopSend vm = vm_calls vm"
| "pending StopLog vm = tl (vm_calls vm)"
| "pending WaitSend vm = tl (vm_calls vm)"
| "pending WaitLog vm = tl (tl (vm_calls vm))"
| "pending RemoveSend vm = tl (tl (vm_calls vm))"
| "pending RemoveLog vm = []"
| "pending Finished vm = []"

definition task_calls :: "task \<Rightarrow> call list" where
  "task_calls t = pending (t_pc t) (t_vm t)"

fun pending_logs :: "pc \<Rightarrow> nat" where
  "pending_logs StopSend = 3"
| "pending_logs StopLog = 3"
| "pending_logs WaitSend = 2"
| "pending_logs WaitLog = 2"
| "pending_logs RemoveSend = 1"
| "pending_logs RemoveLog = 1"
| "pending_logs Finished = 0"

definition task_logs :: "task \<Rightarrow> nat" where
  "task_logs t = pending_logs (t_pc t)"

definition template_removals :: "resource list \<Rightarrow> call list" where
  "template_removals ts = map (\<lambda>t. Template_Remove (MustId t)) ts"

text \<open>
  The answer of the engine to the removal of the template at position \<open>j\<close> of the list
  \<open>ts\<close>, asked after the requests \<open>before\<close> and the removals of the templates at the
  positions below \<open>j\<close>.
\<close>

definition removal_answer :: "Connection \<Rightarrow> resource list \<Rightarrow> call list \<Rightarrow> nat \<Rightarrow> error option" where
  "removal_answer con ts before j =
     template_remove con (before @ template_removals (take j ts)) (MustId (ts ! j))"

text \<open>
  What the loop of \<^verbatim>\<open>removeTemplate\<close> has done when it gives back \<open>r\<close>, having started
  after the requests \<open>before\<close>: it has sent the removals of the first \<open>k\<close> templates, in
  order, and nothing else; every removal but the last one it sent was answered without
  an error; if it returns \<^verbatim>\<open>nil\<close>, these are all the templates and the last removal was
  answered without an error too; if it returns an error, this is the answer to the last
  removal it sent.
\<close>

definition loop_post ::
  "Connection \<Rightarrow> resource list \<Rightarrow> call list \<Rightarrow> error option \<times> world \<Rightarrow> nat \<Rightarrow> bool" where
  "loop_post con ts before r k \<longleftrightarrow>
     k \<le> length ts \<and>
     calls (snd r) = before @ template_removals (take k ts) \<and>
     (\<forall>j. Suc j < k \<longrightarrow> removal_answer con ts before j = None) \<and>
     (fst r = None \<longrightarrow> k = length ts \<and> (\<forall>j<k. removal_answer con ts before j = None)) \<and>
     (\<forall>e. fst r = Some e \<longrightarrow> 0 < k \<and> removal_answer con ts before (k - 1) = Some e)"

subsection \<open>Waits of the retry, repeated calls of Client\<close>

text \<open>Linear backoff: the first \<open>n\<close> waits, from the initial wait, one increment apart.\<close>

definition linear_waits :: "nat \<Rightarrow> nat \<Rightarrow> nat \<Rightarrow> nat list" where
  "linear_waits firstDuration increaseDuration n =
     map (\<lambda>k. firstDuration + k * increaseDuration) [0..<n]"

text \<open>\<open>n\<close> calls of \<^verbatim>\<open>Client\<close> on the same \<^verbatim>\<open>Metadata\<close>, one after the other.\<close>

fun Client_times ::
  "nat \<Rightarrow> (string list \<Rightarrow> string \<Rightarrow> 'c option \<times> 'e option) \<Rightarrow> 'c Metadata \<Rightarrow> string list
     \<Rightarrow> ('c option \<times> 'e option) list \<times> 'c Metadata \<times> string list" where
  "Client_times 0 NewClient m built = ([], m, built)"
| "Client_times (Suc n) NewClient m built =
     (case Client NewClient m built of
        (r, m', built') \<Rightarrow>
          (case Client_times n NewClient m' built' of
             (rs, m'', built'') \<Rightarrow> (r # rs, m'', built'')))"

subsection \<open>A cluster and some engines to run the uninstaller on\<close>

definition u_abc :: ClusterMetadata where
  "u_abc = \<lparr>InfraID = ''abc123'', ClusterID = ''cluster-1'', RemoveTemplate = True\<rparr>"

definition w_start :: world where
  "w_start = \<lparr>calls = [], logs = []\<rparr>"

definition vm_a :: resource where
  "vm_a = \<lparr>MustId = ''vm-1'', MustName = ''abc123-master-0''\<rparr>"

definition vm_b :: resource where
  "vm_b = \<lparr>MustId = ''vm-2'', MustName = ''abc123-worker-0''\<rparr>"

definition vm_c :: resource where
  "vm_c = \<lparr>MustId = ''vm-3'', MustName = ''abc123-bootstrap''\<rparr>"

definition tpl_a :: resource where
  "tpl_a = \<lparr>MustId = ''tpl-1'', MustName = ''abc123-rhcos''\<rparr>"

definition tpl_b :: resource where
  "tpl_b = \<lparr>MustId = ''tpl-2'', MustName = ''abc123-rhcos-old''\<rparr>"

text \<open>An engine on which every request succeeds.\<close>

definition engine_ok :: Connection where
  "engine_ok =
     \<lparr>vms_list_search = (\<lambda>h q.
          Inr (if q = ''tag=abc123'' then [vm_a, vm_b]
               else if q = ''tag=abc123-bootstrap'' then [vm_c] else [])),
      vm_stop = (\<lambda>h i. None),
      wait_for_vm = (\<lambda>h i st d. None),
      vm_remove = (\<lambda>h i. None),
      tags_list = (\<lambda>h. Inr (Some [\<lparr>MustId = ''tag-1'', MustName = ''abc123''\<rparr>,
                                    \<lparr>MustId = ''tag-2'', MustName = ''abc123-bootstrap''\<rparr>])),
      tag_remove = (\<lambda>h i. None),
      templates_list_search = (\<lambda>h q. Inr (Some [tpl_a, tpl_b])),
      template_remove = (\<lambda>h i. None),
      affinity_groups_list = (\<lambda>h c. Inr [\<lparr>MustId = ''ag-1'', MustName = ''abc123-ag1''\<rparr>]),
      affinity_group_remove = (\<lambda>h c i. None)\<rparr>"

text \<open>An engine that answers every request with an error.\<close>

definition engine_down :: Connection where
  "engine_down =
     \<lparr>vms_list_search = (\<lambda>h q. Inl (PlainError ''unreachable'')),
      vm_stop = (\<lambda>h i. Some (PlainError ''unreachable'')),
      wait_for_vm = (\<lambda>h i st d. Some (PlainError ''unreachable'')),
      vm_remove = (\<lambda>h i. Some (PlainError ''unreachable'')),
      tags_list = (\<lambda>h. Inl (PlainError ''unreachable'')),
      tag_remove = (\<lambda>h i. Some (PlainError ''unreachable'')),
      templates_list_search = (\<lambda>h q. Inl (PlainError ''unreachable'')),
      template_remove = (\<lambda>h i. Some (PlainError ''unreachable'')),
      affinity_groups_list = (\<lambda>h c. Inl (PlainError ''unreachable'')),
      affinity_group_remove = (\<lambda>h c i. Some (PlainError ''unreachable''))\<rparr>"

text \<open>
  An engine on which no VM stops and none powers off in time, and on which the removal
  of the first VM fails.
\<close>

definition engine_stuck :: Connection where
  "engine_stuck = engine_ok
     \<lparr>vm_stop := (\<lambda>h i. Some (PlainError ''cannot stop'')),
      wait_for_vm := (\<lambda>h i st d. Some (PlainError ''timeout'')),
      vm_remove := (\<lambda>h i. if i = ''vm-1'' then Some (PlainError ''locked'') else None)\<rparr>"

text \<open>An engine that finds no VM.\<close>

definition engine_empty :: Connection where
  "engine_empty = engine_ok\<lparr>vms_list_search := (\<lambda>h q. Inr [])\<rparr>"

text \<open>An engine on which the VMs are gone already: their removal is answered "not found".\<close>

definition engine_gone :: Connection where
  "engine_gone = engine_ok\<lparr>vm_remove := (\<lambda>h i. Some (NotFoundError ''not found''))\<rparr>"

text \<open>An engine that refuses to remove the first of the two templates.\<close>

definition engine_tpl_busy :: Connection where
  "engine_tpl_busy = engine_ok
     \<lparr>template_remove := (\<lambda>h i. if i = ''tpl-1'' then Some (PlainError ''in use'') else None)\<rparr>"

subsection \<open>Helpers, connections and constructors to run the other functions on\<close>

definition h_ex :: helpers where
  "h_ex =
     \<lparr>NeedRetry = (\<lambda>e. e = SdkError ''Throttling''),
      IsExpectedErrors = (\<lambda>e codes. list_ex (\<lambda>c. e = SdkError c) codes),
      GetNotFoundMessage = (\<lambda>product i. ''The specified '' @ product @ '' '' @ i @ '' is not found.''),
      Sprint = (\<lambda>v. case v of JBool b \<Rightarrow> (if b then ''true'' else ''false'')
                              | JString t \<Rightarrow> t | _ \<Rightarrow> ''<nil>''),
      jsonpath_Get = (\<lambda>path r. Inr (JObject r))\<rparr>"

definition conn_forbidden :: HcsSgwClient where
  "conn_forbidden = (\<lambda>h rq. ([], Some (SdkError ''Forbidden'')))"

definition conn_throttled :: HcsSgwClient where
  "conn_throttled = (\<lambda>h rq. ([], Some (SdkError ''Throttling'')))"

definition conn_absent :: HcsSgwClient where
  "conn_absent = (\<lambda>h rq. ([], Some (SdkError ''StorageBundleNotExist'')))"

definition conn_gw_absent :: HcsSgwClient where
  "conn_gw_absent = (\<lambda>h rq. ([(''RequestId'', JString ''req-7'')], Some (SdkError ''GatewayNotExist'')))"

definition cl_ex :: "HcsSgwClient \<Rightarrow> AliyunClient" where
  "cl_ex conn = \<lparr>RegionId = ''cn-hangzhou'', NewHcsSgwClient = Inr conn\<rparr>"

definition rq_ex :: Request where
  "rq_ex = \<lparr>Action = ''DescribeGateway'', Method = ''POST'', Version = ''2018-05-11'',
            AuthType = ''AK'', Body = [(''GatewayId'', ''gw-1'')], Autoretry = True\<rparr>"

definition frame_start :: frame where
  "frame_start = \<lparr>requests = [], slept = [], debug = [], retryCount = 0, response = [], err = None\<rparr>"

text \<open>
  A constructor that numbers the clients it builds, so that a second construction would
  show, and one that fails.
\<close>

definition NewClient_ok :: "string list \<Rightarrow> string \<Rightarrow> nat option \<times> string option" where
  "NewClient_ok built region = (Some (length built), None)"

definition NewClient_fail :: "string list \<Rightarrow> string \<Rightarrow> nat option \<times> string option" where
  "NewClient_fail built region = (None, Some ''no credentials'')"

section \<open>The uninstaller sends what its steps promise\<close>

subsection \<open>The world, interleavings\<close>

lemma calls_send [simp]: "calls (send c w) = calls w @ [c]"
  by (simp add: send_def)

lemma logs_send [simp]: "logs (send c w) = logs w"
  by (simp add: send_def)

lemma calls_logf [simp]: "calls (logf l m w) = calls w"
  by (simp add: logf_def)

lemma logs_logf [simp]: "logs (logf l m w) = logs w @ [(l, m)]"
  by (simp add: logf_def)

lemma interleaved_Cons:
  "interleaved xss (y # ys) \<longleftrightarrow> (\<exists>i<length xss. \<exists>xs. xss ! i = y # xs \<and> interleaved (xss[i := xs]) ys)"
proof
  assume "interleaved xss (y # ys)"
  then obtain i where i: "i < length xss"
    and c: "case xss ! i of [] \<Rightarrow> False | x # xs \<Rightarrow> x = y \<and> interleaved (xss[i := xs]) ys"
    by (auto simp: list_ex_iff)
  from c obtain xs where "xss ! i = y # xs" "interleaved (xss[i := xs]) ys"
    by (cases "xss ! i") auto
  with i show "\<exists>i<length xss. \<exists>xs. xss ! i = y # xs \<and> interleaved (xss[i := xs]) ys"
    by blast
next
  assume "\<exists>i<length xss. \<exists>xs. xss ! i = y # xs \<and> interleaved (xss[i := xs]) ys"
  then obtain i xs where "i < length xss" "xss ! i = y # xs" "interleaved (xss[i := xs]) ys"
    by blast
  then show "interleaved xss (y # ys)"
    by (auto simp: list_ex_iff intro!: bexI [of _ i])
qed

lemma interleaved_Nil: "interleaved xss [] \<longleftrightarrow> (\<forall>xs\<in>set xss. xs = [])"
  by (simp add: list_all_iff)

lemma interleaved_empty_first: "interleaved xss ys \<Longrightarrow> interleaved ([] # xss) ys"
proof (induction ys arbitrary: xss)
  case Nil
  then show ?case by simp
next
  case (Cons y ys)
  from Cons.prems obtain i xs where i: "i < length xss" "xss ! i = y # xs"
    and r: "interleaved (xss[i := xs]) ys"
    unfolding interleaved_Cons by blast
  from Cons.IH [OF r] have "interleaved (([] # xss)[Suc i := xs]) ys" by simp
  with i show ?case unfolding interleaved_Cons
    by (intro exI [of _ "Suc i"]) auto
qed

lemma interleaved_append_first: "interleaved xss ys \<Longrightarrow> interleaved (xs # xss) (xs @ ys)"
proof (induction xs)
  case Nil
  then show ?case by (simp add: interleaved_empty_first)
next
  case (Cons x xs)
  then have "interleaved (((x # xs) # xss)[0 := xs]) (xs @ ys)" by simp
  then show ?case unfolding append_Cons interleaved_Cons
    by (intro exI [of _ 0]) auto
qed

lemma interleaved_concat: "interleaved xss (concat xss)"
  by (induction xss) (simp_all add: interleaved_append_first)

subsection \<open>The goroutines of removeVMs\<close>

text \<open>
  A goroutine that nothing interrupts does what the source says in one piece:
  \<^verbatim>\<open>stopVM\<close>, then \<^verbatim>\<open>removeVM\<close>.
\<close>

lemma task_finish_new_task:
  "task_finish con (new_task vm) w = removeVM con vm (stopVM con vm w)"
  by (simp add: task_finish_def new_task_def task_step_def stopVM_def removeVM_def Let_def
      eval_nat_numeral split: option.splits)

lemma task_step_calls:
  assumes "t_pc t \<noteq> Finished" and "task_step con t w = (t', w')"
  shows "(task_calls t' = task_calls t \<and> calls w' = calls w) \<or>
         (task_calls t = hd (task_calls t) # task_calls t' \<and> calls w' = calls w @ [hd (task_calls t)])"
  using assms
  by (cases "t_pc t") (auto simp: task_step_def task_calls_def vm_calls_def Let_def split: option.splits)

lemma task_finish_calls: "calls (task_finish con t w) = calls w @ task_calls t"
  by (cases "t_pc t")
     (simp_all add: task_finish_def task_step_def task_calls_def vm_calls_def Let_def eval_nat_numeral
        split: option.splits)

lemma fold_task_finish_calls:
  "calls (fold (task_finish con) ts w) = calls w @ concat (map task_calls ts)"
  by (induction ts arbitrary: w) (simp_all add: task_finish_calls)

lemma run_tasks_interleaved:
  "\<exists>new. calls (run_tasks con sched ts w) = calls w @ new \<and> interleaved (map task_calls ts) new"
proof (induction sched arbitrary: ts w)
  case Nil
  show ?case by (simp add: fold_task_finish_calls interleaved_concat)
next
  case (Cons i sched)
  show ?case
  proof (cases "i < length ts \<and> t_pc (ts ! i) \<noteq> Finished")
    case False
    with Cons.IH [of ts w] show ?thesis by auto
  next
    case True
    obtain t' w' where st: "task_step con (ts ! i) w = (t', w')" by (cases "task_step con (ts ! i) w")
    from Cons.IH [of "ts[i := t']" w'] obtain new where
      new: "calls (run_tasks con sched (ts[i := t']) w') = calls w' @ new"
           "interleaved (map task_calls (ts[i := t'])) new" by blast
    from True st have run: "run_tasks con (i # sched) ts w = run_tasks con sched (ts[i := t']) w'"
      by simp
    from task_step_calls [OF _ st] True
    consider (quiet) "task_calls t' = task_calls (ts ! i)" "calls w' = calls w"
      | (sent) c where "task_calls (ts ! i) = c # task_calls t'" "calls w' = calls w @ [c]"
      by blast
    then show ?thesis
    proof cases
      case quiet
      then have "map task_calls (ts[i := t']) = map task_calls ts"
        by (simp add: map_update list_update_same_conv True)
      with new quiet run show ?thesis by auto
    next
      case sent
      have "interleaved (map task_calls ts) (c # new)"
        unfolding interleaved_Cons
        using True sent new(2) by (intro exI [of _ i]) (auto simp: map_update)
      with new sent run show ?thesis by auto
    qed
  qed
qed

lemma task_step_logs:
  assumes "t_pc t \<noteq> Finished" and "task_step con t w = (t', w')"
  shows "length (logs w') + task_logs t' = length (logs w) + task_logs t"
  using assms
  by (cases "t_pc t") (auto simp: task_step_def task_logs_def Let_def split: option.splits)

lemma task_finish_logs: "length (logs (task_finish con t w)) = length (logs w) + task_logs t"
  by (cases "t_pc t")
     (simp_all add: task_finish_def task_step_def task_logs_def Let_def eval_nat_numeral
        split: option.splits)

lemma fold_task_finish_logs:
  "length (logs (fold (task_finish con) ts w)) = length (logs w) + sum_list (map task_logs ts)"
  by (induction ts arbitrary: w) (simp_all add: task_finish_logs)

lemma sum_list_map_update:
  fixes f :: "'a \<Rightarrow> nat"
  assumes "i < length ts"
  shows "sum_list (map f (ts[i := t'])) + f (ts ! i) = sum_list (map f ts) + f t'"
proof -
  have "f (ts ! i) \<in> set (map f ts)"
    using assms by (metis length_map nth_map nth_mem)
  then have "f (ts ! i) \<le> sum_list (map f ts)"
    by (intro member_le_sum_list) simp_all
  moreover have "sum_list ((map f ts)[i := f t']) = sum_list (map f ts) + f t' - (map f ts) ! i"
    using assms by (intro sum_list_update) simp
  ultimately show ?thesis using assms by (simp add: map_update)
qed

lemma run_tasks_logs:
  "length (logs (run_tasks con sched ts w)) = length (logs w) + sum_list (map task_logs ts)"
proof (induction sched arbitrary: ts w)
  case Nil
  show ?case by (simp add: fold_task_finish_logs)
next
  case (Cons i sched)
  show ?case
  proof (cases "i < length ts \<and> t_pc (ts ! i) \<noteq> Finished")
    case False
    with Cons.IH [of ts w] show ?thesis by auto
  next
    case True
    obtain t' w' where st: "task_step con (ts ! i) w = (t', w')" by (cases "task_step con (ts ! i) w")
    from True st have run: "run_tasks con (i # sched) ts w = run_tasks con sched (ts[i := t']) w'"
      by simp
    from task_step_logs [OF _ st] True
    have a: "length (logs w') + task_logs t' = length (logs w) + task_logs (ts ! i)" by simp
    from sum_list_map_update [of i ts task_logs t'] True
    have b: "sum_list (map task_logs (ts[i := t'])) + task_logs (ts ! i)
               = sum_list (map task_logs ts) + task_logs t'" by simp
    from a b show ?thesis unfolding run Cons.IH by linarith
  qed
qed

lemma task_logs_new_task: "sum_list (map task_logs (map new_task vms)) = 3 * length vms"
  by (induction vms) (simp_all add: task_logs_def new_task_def)

lemma task_calls_new_task: "map task_calls (map new_task vms) = map vm_calls vms"
  by (simp add: task_calls_def new_task_def)

text \<open>
  Claim C2. When the search by tag succeeds and returns the VMs \<open>vms\<close>, \<^verbatim>\<open>removeVMs\<close>
  returns \<^verbatim>\<open>nil\<close>, whatever the engine answers to the stop, wait and remove requests
  and however the goroutines are scheduled. The requests it has sent after the search
  are a merge of the sequences stop, wait for power-off, remove of each of the VMs: each
  VM gets all three requests, in this order, so the removal is requested also after a
  failed stop or a timed-out wait, and no VM is skipped because another one failed. When
  \<^verbatim>\<open>removeVMs\<close> returns, each goroutine has written its three log lines, the last of
  which follows its removal request: all of them have run to their end.
\<close>

theorem removeVMs_all_units:
  assumes "vms_list_search con (calls w) (''tag='' @ tag) = Inr vms"
  shows "fst (removeVMs con sched tag w) = None \<and>
         (\<exists>new. calls (snd (removeVMs con sched tag w))
                  = calls w @ [Vms_List_Search (''tag='' @ tag)] @ new \<and>
                interleaved (map vm_calls vms) new) \<and>
         length (logs (snd (removeVMs con sched tag w))) = length (logs w) + 2 + 3 * length vms"
proof -
  let ?w3 = "logf DebugLevel (''Found '' @ show_nat (length vms) @ '' VMs'')
               (send (Vms_List_Search (''tag='' @ tag))
                  (logf DebugLevel (''Searching VMs by '' @ ''tag='' @ tag) w))"
  from assms have r: "removeVMs con sched tag w = (None, run_tasks con sched (map new_task vms) ?w3)"
    by (simp add: removeVMs_def Let_def)
  from run_tasks_interleaved [of con sched "map new_task vms" ?w3]
  obtain new where "calls (run_tasks con sched (map new_task vms) ?w3) = calls ?w3 @ new"
    and "interleaved (map vm_calls vms) new"
    unfolding task_calls_new_task by blast
  moreover have "length (logs (run_tasks con sched (map new_task vms) ?w3))
                   = length (logs w) + 2 + 3 * length vms"
    unfolding run_tasks_logs task_logs_new_task by simp
  ultimately show ?thesis unfolding r by simp
qed

theorem removeVMs_all_units_witness:
  "vms_list_search engine_stuck (calls w_start) (''tag='' @ ''abc123'') = Inr [vm_a, vm_b] \<and>
   fst (removeVMs engine_stuck [1, 0, 0, 1, 1, 0] ''abc123'' w_start) = None \<and>
   (\<exists>new. calls (snd (removeVMs engine_stuck [1, 0, 0, 1, 1, 0] ''abc123'' w_start))
            = calls w_start @ [Vms_List_Search (''tag='' @ ''abc123'')] @ new \<and>
          interleaved (map vm_calls [vm_a, vm_b]) new) \<and>
   length (logs (snd (removeVMs engine_stuck [1, 0, 0, 1, 1, 0] ''abc123'' w_start)))
     = length (logs w_start) + 2 + 3 * length [vm_a, vm_b] \<and>
   calls (snd (removeVMs engine_stuck [1, 0, 0, 1, 1, 0] ''abc123'' w_start))
     = [Vms_List_Search ''tag=abc123'', Vm_Stop ''vm-2'', Vm_Stop ''vm-1'',
        WaitForVM ''vm-2'' VMSTATUS_DOWN waitForDownDuration,
        WaitForVM ''vm-1'' VMSTATUS_DOWN waitForDownDuration,
        Vm_Remove ''vm-1'', Vm_Remove ''vm-2'']"
proof -
  have h: "vms_list_search engine_stuck (calls w_start) (''tag='' @ ''abc123'') = Inr [vm_a, vm_b]"
    by (simp add: engine_stuck_def engine_ok_def)
  have c: "calls (snd (removeVMs engine_stuck [1, 0, 0, 1, 1, 0] ''abc123'' w_start))
     = [Vms_List_Search ''tag=abc123'', Vm_Stop ''vm-2'', Vm_Stop ''vm-1'',
        WaitForVM ''vm-2'' VMSTATUS_DOWN waitForDownDuration,
        WaitForVM ''vm-1'' VMSTATUS_DOWN waitForDownDuration,
        Vm_Remove ''vm-1'', Vm_Remove ''vm-2'']"
    by (simp add: removeVMs_def engine_stuck_def engine_ok_def w_start_def send_def logf_def
        Let_def new_task_def task_step_def task_finish_def vm_a_def vm_b_def eval_nat_numeral)
  from removeVMs_all_units [OF h, of "[1, 0, 0, 1, 1, 0]"] h c show ?thesis by blast
qed

text \<open>
  Claim C8. When the search by tag succeeds and finds no VM, \<^verbatim>\<open>removeVMs\<close> returns
  \<^verbatim>\<open>nil\<close>; the search is the only request it has sent (no stop, no removal), and it has
  written its two debug lines.
\<close>

theorem removeVMs_empty:
  assumes "vms_list_search con (calls w) (''tag='' @ tag) = Inr []"
  shows "removeVMs con sched tag w =
           (None, w\<lparr>calls := calls w @ [Vms_List_Search (''tag='' @ tag)],
                    logs := logs w @ [(DebugLevel, ''Searching VMs by tag='' @ tag),
                                      (DebugLevel, ''Found 0 VMs'')]\<rparr>)"
proof -
  have "run_tasks con sched [] w' = w'" for w'
    by (induction sched) simp_all
  with assms show ?thesis
    by (simp add: removeVMs_def Let_def send_def logf_def show_nat.simps digit_def)
qed

theorem removeVMs_empty_witness:
  "vms_list_search engine_empty (calls w_start) (''tag='' @ ''abc123'') = Inr [] \<and>
   removeVMs engine_empty [0, 1] ''abc123'' w_start =
     (None, \<lparr>calls = [Vms_List_Search ''tag=abc123''],
             logs = [(DebugLevel, ''Searching VMs by tag=abc123''), (DebugLevel, ''Found 0 VMs'')]\<rparr>)"
proof -
  have h: "vms_list_search engine_empty (calls w_start) (''tag='' @ ''abc123'') = Inr []"
    by (simp add: engine_empty_def)
  from removeVMs_empty [OF h, of "[0, 1]"] h show ?thesis by (simp add: w_start_def)
qed

subsection \<open>The steps of Run\<close>














text \<open>
  Claim C3. \<^verbatim>\<open>Run\<close> returns an error exactly when \<^verbatim>\<open>ovirt.NewConnection\<close> returned
  one. With a connection it returns \<^verbatim>\<open>(nil, nil)\<close>, whatever the engine answers to the
  requests of the steps.
\<close>

theorem Run_error_iff:
  "((\<exists>e. snd (fst (Run u NewConnection scheds w)) = Some e) \<longleftrightarrow> (\<exists>e. NewConnection = Inl e)) \<and>
   fst (Run u (Inr con) scheds w) = (None, None)"
  by (cases NewConnection) (simp_all add: Run_def Let_def split: prod.splits)

theorem Run_error_iff_witness:
  "(\<exists>e. snd (fst (Run u_abc (Inl (PlainError ''no route to host'')) [] w_start)) = Some e) \<and>
   fst (Run u_abc (Inr engine_down) [] w_start) = (None, None)"
  using Run_error_iff [of u_abc "Inl (PlainError ''no route to host'')" "[]" w_start engine_down]
  by simp

subsection \<open>Templates\<close>

lemma removal_answer_0: "removal_answer con (t # ts) before 0 = template_remove con before (MustId t)"
  by (simp add: removal_answer_def template_removals_def)

lemma removal_answer_Suc:
  "removal_answer con (t # ts) before (Suc j)
     = removal_answer con ts (before @ [Template_Remove (MustId t)]) j"
  by (simp add: removal_answer_def template_removals_def)

lemma loop_post_Cons:
  assumes p: "loop_post con ts (before @ [Template_Remove (MustId t)]) r k"
    and n: "template_remove con before (MustId t) = None"
  shows "loop_post con (t # ts) before r (Suc k)"
proof -
  let ?b = "before @ [Template_Remove (MustId t)]"
  have shift: "removal_answer con (t # ts) before j = None"
    if "\<And>i. j = Suc i \<Longrightarrow> removal_answer con ts ?b i = None" for j
    using that n by (cases j) (simp_all add: removal_answer_0 removal_answer_Suc)
  have a: "Suc k \<le> length (t # ts)" using p by (simp add: loop_post_def)
  have b: "calls (snd r) = before @ template_removals (take (Suc k) (t # ts))"
    using p by (simp add: loop_post_def template_removals_def)
  have c: "removal_answer con (t # ts) before j = None" if "Suc j < Suc k" for j
  proof (rule shift)
    fix i assume "j = Suc i"
    with that have "Suc i < k" by simp
    with p show "removal_answer con ts ?b i = None" by (simp add: loop_post_def)
  qed
  have d: "Suc k = length (t # ts) \<and> (\<forall>j<Suc k. removal_answer con (t # ts) before j = None)"
    if "fst r = None"
  proof (intro conjI allI impI)
    from p that show "Suc k = length (t # ts)" by (simp add: loop_post_def)
    fix j assume "j < Suc k"
    show "removal_answer con (t # ts) before j = None"
    proof (rule shift)
      fix i assume "j = Suc i"
      with \<open>j < Suc k\<close> have "i < k" by simp
      with p that show "removal_answer con ts ?b i = None" by (simp add: loop_post_def)
    qed
  qed
  have e: "0 < Suc k \<and> removal_answer con (t # ts) before (Suc k - 1) = Some e" if "fst r = Some e" for e
  proof -
    from p that have "0 < k" and "removal_answer con ts ?b (k - 1) = Some e"
      by (simp_all add: loop_post_def)
    then show ?thesis by (cases k) (simp_all add: removal_answer_Suc)
  qed
  from a b c d e show ?thesis unfolding loop_post_def by blast
qed

lemma removeTemplate_loop_calls:
  "\<exists>k. loop_post con ts (calls w) (removeTemplate_loop con ts w) k"
proof (induction ts arbitrary: w)
  case Nil
  show ?case by (simp add: template_removals_def loop_post_def)
next
  case (Cons t ts)
  let ?w1 = "logf InfoLevel (''Removing Template '' @ MustName t) w"
  let ?w2 = "send (Template_Remove (MustId t)) ?w1"
  show ?case
  proof (cases "template_remove con (calls w) (MustId t)")
    case (Some e)
    then have "removeTemplate_loop con (t # ts) w = (Some e, ?w2)" by (simp add: Let_def)
    with Some have "loop_post con (t # ts) (calls w) (removeTemplate_loop con (t # ts) w) (Suc 0)"
      by (simp add: loop_post_def template_removals_def removal_answer_0
          del: removeTemplate_loop.simps)
    then show ?thesis ..
  next
    case None
    then have r: "removeTemplate_loop con (t # ts) w = removeTemplate_loop con ts ?w2"
      by (simp add: Let_def)
    from Cons [of ?w2] obtain k where "loop_post con ts (calls ?w2) (removeTemplate_loop con ts ?w2) k" ..
    then have "loop_post con ts (calls w @ [Template_Remove (MustId t)]) (removeTemplate_loop con ts ?w2) k"
      by simp
    from loop_post_Cons [OF this None] show ?thesis unfolding r ..
  qed
qed

text \<open>
  Claim C5, as stated, fails: with the flag set and a search that returns two templates,
  the second template is not removed when the removal of the first one fails, although
  the engine would have removed it.
\<close>

theorem removeTemplate_counterexample:
  "RemoveTemplate u_abc \<and>
   templates_list_search engine_tpl_busy (calls w_start) ''name=abc123-rhcos''
     = Inr (Some [tpl_a, tpl_b]) \<and>
   removeTemplate u_abc engine_tpl_busy w_start
     = (Some (PlainError ''in use''),
        \<lparr>calls = [Templates_List_Search ''name=abc123-rhcos'', Template_Remove ''tpl-1''],
         logs = [(InfoLevel, ''Removing Template abc123-rhcos'')]\<rparr>) \<and>
   Template_Remove (MustId tpl_b) \<notin> set (calls (snd (removeTemplate u_abc engine_tpl_busy w_start))) \<and>
   template_remove engine_tpl_busy
     (calls (snd (removeTemplate u_abc engine_tpl_busy w_start))) (MustId tpl_b) = None"
  by (simp add: removeTemplate_def u_abc_def engine_tpl_busy_def engine_ok_def w_start_def
      tpl_a_def tpl_b_def send_def logf_def Let_def)

text \<open>
  Claim C5, amended. When the flag \<^verbatim>\<open>RemoveTemplate\<close> is not set, \<^verbatim>\<open>removeTemplate\<close>
  sends no request, writes nothing and returns \<^verbatim>\<open>nil\<close>. When the flag is set and the
  search returns the templates \<open>ts\<close>, it requests their removal in the order of the list
  and stops at the first removal that fails: it has sent the removals of the first \<open>k\<close>
  templates and nothing else, and every one of these removals but the last was answered
  without an error. When it returns \<^verbatim>\<open>nil\<close>, no removal has failed and all the
  templates have been removed. When it returns an error, this is the answer to the last
  removal it sent, and the templates after that one are not touched.
\<close>

theorem removeTemplate_until_first_failure:
  "(\<not> RemoveTemplate u \<longrightarrow> removeTemplate u con w = (None, w)) \<and>
   (RemoveTemplate u \<and>
    templates_list_search con (calls w) (''name='' @ InfraID u @ ''-rhcos'') = Inr (Some ts) \<longrightarrow>
      (\<exists>k\<le>length ts.
         calls (snd (removeTemplate u con w))
           = (calls w @ [Templates_List_Search (''name='' @ InfraID u @ ''-rhcos'')])
               @ template_removals (take k ts) \<and>
         (\<forall>j. Suc j < k \<longrightarrow>
            removal_answer con ts
              (calls w @ [Templates_List_Search (''name='' @ InfraID u @ ''-rhcos'')]) j = None) \<and>
         (fst (removeTemplate u con w) = None \<longrightarrow>
            k = length ts \<and>
            (\<forall>j<k. removal_answer con ts
                      (calls w @ [Templates_List_Search (''name='' @ InfraID u @ ''-rhcos'')]) j
                    = None)) \<and>
         (\<forall>e. fst (removeTemplate u con w) = Some e \<longrightarrow>
            0 < k \<and>
            removal_answer con ts
              (calls w @ [Templates_List_Search (''name='' @ InfraID u @ ''-rhcos'')]) (k - 1)
              = Some e)))"
proof (intro conjI impI)
  assume "\<not> RemoveTemplate u"
  then show "removeTemplate u con w = (None, w)" by (simp add: removeTemplate_def)
next
  let ?name = "''name='' @ InfraID u @ ''-rhcos''"
  let ?w1 = "send (Templates_List_Search ?name) w"
  let ?b = "calls w @ [Templates_List_Search ?name]"
  assume a: "RemoveTemplate u \<and> templates_list_search con (calls w) ?name = Inr (Some ts)"
  then have r: "removeTemplate u con w = removeTemplate_loop con ts ?w1"
    by (simp add: removeTemplate_def Let_def)
  have c: "calls ?w1 = ?b" by simp
  from removeTemplate_loop_calls [of con ts ?w1] obtain k
    where "loop_post con ts ?b (removeTemplate u con w) k"
    unfolding r c ..
  then show "\<exists>k\<le>length ts.
         calls (snd (removeTemplate u con w)) = ?b @ template_removals (take k ts) \<and>
         (\<forall>j. Suc j < k \<longrightarrow> removal_answer con ts ?b j = None) \<and>
         (fst (removeTemplate u con w) = None \<longrightarrow>
            k = length ts \<and> (\<forall>j<k. removal_answer con ts ?b j = None)) \<and>
         (\<forall>e. fst (removeTemplate u con w) = Some e \<longrightarrow>
            0 < k \<and> removal_answer con ts ?b (k - 1) = Some e)"
    unfolding loop_post_def by (intro exI [of _ k]) (elim conjE, intro conjI, assumption+)
qed


theorem removeTemplate_until_first_failure_witness:
  "RemoveTemplate u_abc \<and>
   templates_list_search engine_tpl_busy (calls w_start) (''name='' @ InfraID u_abc @ ''-rhcos'')
     = Inr (Some [tpl_a, tpl_b]) \<and>
   fst (removeTemplate u_abc engine_tpl_busy w_start) = Some (PlainError ''in use'') \<and>
   calls (snd (removeTemplate u_abc engine_tpl_busy w_start))
     = [Templates_List_Search ''name=abc123-rhcos'', Template_Remove ''tpl-1''] \<and>
   templates_list_search engine_ok (calls w_start) (''name='' @ InfraID u_abc @ ''-rhcos'')
     = Inr (Some [tpl_a, tpl_b]) \<and>
   fst (removeTemplate u_abc engine_ok w_start) = None \<and>
   calls (snd (removeTemplate u_abc engine_ok w_start))
     = [Templates_List_Search ''name=abc123-rhcos'', Template_Remove ''tpl-1'',
        Template_Remove ''tpl-2'']"
proof -
  let ?b = "calls w_start @ [Templates_List_Search (''name='' @ InfraID u_abc @ ''-rhcos'')]"
  let ?ts = "[tpl_a, tpl_b]"
  let ?r = "removeTemplate u_abc engine_tpl_busy w_start"
  let ?A = "removal_answer engine_tpl_busy ?ts ?b"
  have h: "RemoveTemplate u_abc \<and>
      templates_list_search engine_tpl_busy (calls w_start) (''name='' @ InfraID u_abc @ ''-rhcos'')
        = Inr (Some ?ts)"
    by (simp add: u_abc_def engine_tpl_busy_def engine_ok_def)
  have a0: "?A 0 = Some (PlainError ''in use'')"
    by (simp add: removal_answer_def engine_tpl_busy_def engine_ok_def tpl_a_def)
  have "RemoveTemplate u_abc \<and>
      templates_list_search engine_tpl_busy (calls w_start) (''name='' @ InfraID u_abc @ ''-rhcos'')
        = Inr (Some ?ts) \<longrightarrow>
      (\<exists>k\<le>length ?ts. calls (snd ?r) = ?b @ template_removals (take k ?ts) \<and>
         (\<forall>j. Suc j < k \<longrightarrow> ?A j = None) \<and>
         (fst ?r = None \<longrightarrow> k = length ?ts \<and> (\<forall>j<k. ?A j = None)) \<and>
         (\<forall>e. fst ?r = Some e \<longrightarrow> 0 < k \<and> ?A (k - 1) = Some e))"
    by (rule conjunct2 [OF removeTemplate_until_first_failure [of u_abc engine_tpl_busy w_start ?ts]])
  from this h have "\<exists>k\<le>length ?ts. calls (snd ?r) = ?b @ template_removals (take k ?ts) \<and>
         (\<forall>j. Suc j < k \<longrightarrow> ?A j = None) \<and>
         (fst ?r = None \<longrightarrow> k = length ?ts \<and> (\<forall>j<k. ?A j = None)) \<and>
         (\<forall>e. fst ?r = Some e \<longrightarrow> 0 < k \<and> ?A (k - 1) = Some e)"
    by (rule mp)
  then obtain k where kk: "k \<le> length ?ts \<and> calls (snd ?r) = ?b @ template_removals (take k ?ts) \<and>
         (\<forall>j. Suc j < k \<longrightarrow> ?A j = None) \<and>
         (fst ?r = None \<longrightarrow> k = length ?ts \<and> (\<forall>j<k. ?A j = None)) \<and>
         (\<forall>e. fst ?r = Some e \<longrightarrow> 0 < k \<and> ?A (k - 1) = Some e)" ..
  note k = kk [THEN conjunct1]
    and c = kk [THEN conjunct2, THEN conjunct1]
    and early = kk [THEN conjunct2, THEN conjunct2, THEN conjunct1]
    and nil = kk [THEN conjunct2, THEN conjunct2, THEN conjunct2, THEN conjunct1]
    and err = kk [THEN conjunct2, THEN conjunct2, THEN conjunct2, THEN conjunct2]
  have "fst ?r \<noteq> None"
  proof
    assume "fst ?r = None"
    with nil have "?A 0 = None" by simp
    with a0 show False by simp
  qed
  then obtain e where e: "fst ?r = Some e" by auto
  with err have pos: "0 < k" and last: "?A (k - 1) = Some e" by auto
  from early a0 have "\<not> Suc 0 < k" by auto
  with pos have k1: "k = 1" by simp
  with last a0 have "e = PlainError ''in use''" by simp
  with e have busy1: "fst ?r = Some (PlainError ''in use'')" by simp
  from c k1 have busy2: "calls (snd ?r)
     = [Templates_List_Search ''name=abc123-rhcos'', Template_Remove ''tpl-1'']"
    by (simp add: template_removals_def w_start_def u_abc_def tpl_a_def)
  let ?r' = "removeTemplate u_abc engine_ok w_start"
  let ?A' = "removal_answer engine_ok ?ts ?b"
  have h': "RemoveTemplate u_abc \<and>
      templates_list_search engine_ok (calls w_start) (''name='' @ InfraID u_abc @ ''-rhcos'')
        = Inr (Some ?ts)"
    by (simp add: u_abc_def engine_ok_def)
  have all_ok: "?A' j = None" for j
    by (simp add: removal_answer_def engine_ok_def)
  have "RemoveTemplate u_abc \<and>
      templates_list_search engine_ok (calls w_start) (''name='' @ InfraID u_abc @ ''-rhcos'')
        = Inr (Some ?ts) \<longrightarrow>
      (\<exists>k\<le>length ?ts. calls (snd ?r') = ?b @ template_removals (take k ?ts) \<and>
         (\<forall>j. Suc j < k \<longrightarrow> ?A' j = None) \<and>
         (fst ?r' = None \<longrightarrow> k = length ?ts \<and> (\<forall>j<k. ?A' j = None)) \<and>
         (\<forall>e. fst ?r' = Some e \<longrightarrow> 0 < k \<and> ?A' (k - 1) = Some e))"
    by (rule conjunct2 [OF removeTemplate_until_first_failure [of u_abc engine_ok w_start ?ts]])
  from this h' have "\<exists>k\<le>length ?ts. calls (snd ?r') = ?b @ template_removals (take k ?ts) \<and>
         (\<forall>j. Suc j < k \<longrightarrow> ?A' j = None) \<and>
         (fst ?r' = None \<longrightarrow> k = length ?ts \<and> (\<forall>j<k. ?A' j = None)) \<and>
         (\<forall>e. fst ?r' = Some e \<longrightarrow> 0 < k \<and> ?A' (k - 1) = Some e)"
    by (rule mp)
  then obtain k' where kk': "k' \<le> length ?ts \<and> calls (snd ?r') = ?b @ template_removals (take k' ?ts) \<and>
         (\<forall>j. Suc j < k' \<longrightarrow> ?A' j = None) \<and>
         (fst ?r' = None \<longrightarrow> k' = length ?ts \<and> (\<forall>j<k'. ?A' j = None)) \<and>
         (\<forall>e. fst ?r' = Some e \<longrightarrow> 0 < k' \<and> ?A' (k' - 1) = Some e)" ..
  note c' = kk' [THEN conjunct2, THEN conjunct1]
    and nil' = kk' [THEN conjunct2, THEN conjunct2, THEN conjunct2, THEN conjunct1]
    and err' = kk' [THEN conjunct2, THEN conjunct2, THEN conjunct2, THEN conjunct2]
  from err' all_ok have ok1: "fst ?r' = None" by (cases "fst ?r'") auto
  with nil' have "k' = 2" by simp
  with c' have ok2: "calls (snd ?r')
     = [Templates_List_Search ''name=abc123-rhcos'', Template_Remove ''tpl-1'',
        Template_Remove ''tpl-2'']"
    by (simp add: template_removals_def w_start_def u_abc_def tpl_a_def tpl_b_def)
  from h h' busy1 busy2 ok1 ok2 show ?thesis by simp
qed

subsection \<open>Not found\<close>

text \<open>
  Claim C4, as stated, fails for the uninstaller: a removal that the engine answers with
  "not found" is logged as a failure at error level, and the result differs from the one
  of a removal that succeeded.
\<close>

theorem removeVM_not_found_counterexample:
  "vm_remove engine_gone (calls w_start) (MustId vm_a) = Some (NotFoundError ''not found'') \<and>
   vm_remove engine_ok (calls w_start) (MustId vm_a) = None \<and>
   logs (removeVM engine_gone vm_a w_start)
     = [(ErrorLevel, ''Failed to remove VM abc123-master-0: not found'')] \<and>
   logs (removeVM engine_ok vm_a w_start) = [(InfoLevel, ''Removing VM abc123-master-0'')] \<and>
   removeVM engine_gone vm_a w_start \<noteq> removeVM engine_ok vm_a w_start"
proof -
  have a: "logs (removeVM engine_gone vm_a w_start)
     = [(ErrorLevel, ''Failed to remove VM abc123-master-0: not found'')]"
    by (simp add: removeVM_def engine_gone_def engine_ok_def vm_a_def w_start_def Let_def)
  have b: "logs (removeVM engine_ok vm_a w_start) = [(InfoLevel, ''Removing VM abc123-master-0'')]"
    by (simp add: removeVM_def engine_ok_def vm_a_def w_start_def Let_def)
  from a b have "logs (removeVM engine_gone vm_a w_start) \<noteq> logs (removeVM engine_ok vm_a w_start)"
    by simp
  then have "removeVM engine_gone vm_a w_start \<noteq> removeVM engine_ok vm_a w_start" by auto
  with a b show ?thesis by (simp add: engine_gone_def engine_ok_def)
qed

text \<open>
  Claim C4, amended. The uninstaller has no case for "not found": \<^verbatim>\<open>removeVM\<close> logs
  every error that the removal request returns, a not-found error like any other, at
  error level as a failed removal, and logs the removal at info level only when the
  request returns no error. The describe functions of the storage gateway service do
  translate. When the request of \<^verbatim>\<open>DescribeCloudStorageGatewayStorageBundle\<close> fails
  with an error that \<^verbatim>\<open>IsExpectedErrors\<close> matches with the code
  \<^verbatim>\<open>StorageBundleNotExist\<close>, the function returns no object and the error built from
  \<^verbatim>\<open>GetNotFoundMessage\<close> and \<^verbatim>\<open>NotFoundMsg\<close>; for every other error of the request it
  returns no object and that error wrapped with \<^verbatim>\<open>DefaultErrorMsg\<close>. When the retry
  of \<^verbatim>\<open>DescribeCloudStorageGatewayGateway\<close> ends with an error, the function does the
  same with the code \<^verbatim>\<open>GatewayNotExist\<close>. What is returned for "not found" is an
  error value of its own kind, not the absence of an error.
\<close>

theorem not_found_is_an_error:
  "(vm_remove con (calls w) (MustId vm) = Some e \<longrightarrow>
      removeVM con vm w
        = logf ErrorLevel (''Failed to remove VM '' @ MustName vm @ '': '' @ Error_text e)
            (send (Vm_Remove (MustId vm)) w)) \<and>
   (vm_remove con (calls w) (MustId vm) = None \<longrightarrow>
      removeVM con vm w
        = logf InfoLevel (''Removing VM '' @ MustName vm) (send (Vm_Remove (MustId vm)) w)) \<and>
   (NewHcsSgwClient cl = Inr conn \<and>
    conn (requests s)
      \<lparr>Action = ''DescribeStorageBundle'', Method = ''POST'', Version = ''2018-05-11'',
       AuthType = ''AK'', Body = [(''RegionId'', RegionId cl), (''StorageBundleId'', id')],
       Autoretry = True\<rparr> = (resp, Some er) \<longrightarrow>
      fst (DescribeCloudStorageGatewayStorageBundle h cl id' s)
        = Returns (None, Some
            (if IsExpectedErrors h er [''StorageBundleNotExist'']
             then WrapErrorf (Error (GetNotFoundMessage h ''CloudStorageGatewayStorageBundle'' id'))
                    NotFoundMsg [Src ProviderERROR]
             else WrapErrorf er DefaultErrorMsg
                    [Str id', Str ''DescribeStorageBundle'', Src AlibabaCloudSdkGoERROR]))) \<and>
   (NewHcsSgwClient cl = Inr conn \<and>
    Retry (5 * Minute)
      (DescribeCloudStorageGatewayGateway_attempt h conn
         \<lparr>Action = ''DescribeGateway'', Method = ''POST'', Version = ''2018-05-11'',
          AuthType = ''AK'', Body = [(''GatewayId'', id')], Autoretry = True\<rparr>)
      (s\<lparr>response := [], err := None, retryCount := 0\<rparr>) = Some (Some er, s2) \<longrightarrow>
      map_option fst (DescribeCloudStorageGatewayGateway h cl id' s)
        = Some (Returns (None, Some
            (if IsExpectedErrors h er [''GatewayNotExist'']
             then WrapErrorf (Error (GetNotFoundMessage h ''CloudStorageGateway:Gateway'' id'))
                    NotFoundMsg
                    [Src ProviderERROR, Str (Sprint h (index (response s2) ''RequestId''))]
             else WrapErrorf er DefaultErrorMsg
                    [Str id', Str ''DescribeGateway'', Src AlibabaCloudSdkGoERROR]))))"
proof (intro conjI impI)
  assume "vm_remove con (calls w) (MustId vm) = Some e"
  then show "removeVM con vm w
        = logf ErrorLevel (''Failed to remove VM '' @ MustName vm @ '': '' @ Error_text e)
            (send (Vm_Remove (MustId vm)) w)"
    by (simp add: removeVM_def Let_def)
next
  assume "vm_remove con (calls w) (MustId vm) = None"
  then show "removeVM con vm w
        = logf InfoLevel (''Removing VM '' @ MustName vm) (send (Vm_Remove (MustId vm)) w)"
    by (simp add: removeVM_def Let_def)
next
  assume "NewHcsSgwClient cl = Inr conn \<and>
    conn (requests s)
      \<lparr>Action = ''DescribeStorageBundle'', Method = ''POST'', Version = ''2018-05-11'',
       AuthType = ''AK'', Body = [(''RegionId'', RegionId cl), (''StorageBundleId'', id')],
       Autoretry = True\<rparr> = (resp, Some er)"
  then show "fst (DescribeCloudStorageGatewayStorageBundle h cl id' s)
        = Returns (None, Some
            (if IsExpectedErrors h er [''StorageBundleNotExist'']
             then WrapErrorf (Error (GetNotFoundMessage h ''CloudStorageGatewayStorageBundle'' id'))
                    NotFoundMsg [Src ProviderERROR]
             else WrapErrorf er DefaultErrorMsg
                    [Str id', Str ''DescribeStorageBundle'', Src AlibabaCloudSdkGoERROR]))"
    by (simp add: DescribeCloudStorageGatewayStorageBundle_def DoRequest_def Let_def)
next
  assume "NewHcsSgwClient cl = Inr conn \<and>
    Retry (5 * Minute)
      (DescribeCloudStorageGatewayGateway_attempt h conn
         \<lparr>Action = ''DescribeGateway'', Method = ''POST'', Version = ''2018-05-11'',
          AuthType = ''AK'', Body = [(''GatewayId'', id')], Autoretry = True\<rparr>)
      (s\<lparr>response := [], err := None, retryCount := 0\<rparr>) = Some (Some er, s2)"
  then show "map_option fst (DescribeCloudStorageGatewayGateway h cl id' s)
        = Some (Returns (None, Some
            (if IsExpectedErrors h er [''GatewayNotExist'']
             then WrapErrorf (Error (GetNotFoundMessage h ''CloudStorageGateway:Gateway'' id'))
                    NotFoundMsg
                    [Src ProviderERROR, Str (Sprint h (index (response s2) ''RequestId''))]
             else WrapErrorf er DefaultErrorMsg
                    [Str id', Str ''DescribeGateway'', Src AlibabaCloudSdkGoERROR])))"
    by (simp add: DescribeCloudStorageGatewayGateway_def Let_def addDebug_def)
qed

theorem not_found_is_an_error_witness:
  "vm_remove engine_gone (calls w_start) (MustId vm_a) = Some (NotFoundError ''not found'') \<and>
   removeVM engine_gone vm_a w_start
     = logf ErrorLevel (''Failed to remove VM '' @ MustName vm_a @ '': '' @ ''not found'')
         (send (Vm_Remove (MustId vm_a)) w_start) \<and>
   fst (DescribeCloudStorageGatewayStorageBundle h_ex (cl_ex conn_absent) ''sb-1'' frame_start)
     = Returns (None, Some (WrapErrorf
         (Error ''The specified CloudStorageGatewayStorageBundle sb-1 is not found.'')
         NotFoundMsg [Src ProviderERROR])) \<and>
   map_option fst (DescribeCloudStorageGatewayGateway h_ex (cl_ex conn_gw_absent) ''gw-1'' frame_start)
     = Some (Returns (None, Some (WrapErrorf
         (Error ''The specified CloudStorageGateway:Gateway gw-1 is not found.'')
         NotFoundMsg [Src ProviderERROR, Str ''req-7''])))"
proof -
  let ?rq = "\<lparr>Action = ''DescribeGateway'', Method = ''POST'', Version = ''2018-05-11'',
          AuthType = ''AK'', Body = [(''GatewayId'', ''gw-1'')], Autoretry = True\<rparr>"
  let ?s2 = "\<lparr>requests = [?rq], slept = [], debug = [], retryCount = 0,
             response = [(''RequestId'', JString ''req-7'')],
             err = Some (SdkError ''GatewayNotExist'')\<rparr>"
  have h1: "vm_remove engine_gone (calls w_start) (MustId vm_a) = Some (NotFoundError ''not found'')"
    by (simp add: engine_gone_def engine_ok_def)
  have h2: "NewHcsSgwClient (cl_ex conn_absent) = Inr conn_absent \<and>
    conn_absent (requests frame_start)
      \<lparr>Action = ''DescribeStorageBundle'', Method = ''POST'', Version = ''2018-05-11'',
       AuthType = ''AK'',
       Body = [(''RegionId'', RegionId (cl_ex conn_absent)), (''StorageBundleId'', ''sb-1'')],
       Autoretry = True\<rparr> = ([], Some (SdkError ''StorageBundleNotExist''))"
    by (simp add: cl_ex_def conn_absent_def)
  have r: "Retry (5 * Minute) (DescribeCloudStorageGatewayGateway_attempt h_ex conn_gw_absent ?rq)
      (frame_start\<lparr>response := [], err := None, retryCount := 0\<rparr>)
        = Some (Some (SdkError ''GatewayNotExist''), ?s2)"
    unfolding Retry_def
    by (subst Retry_loop.simps)
       (simp add: DescribeCloudStorageGatewayGateway_attempt_def DoRequest_def Let_def h_ex_def
          conn_gw_absent_def frame_start_def)
  have h3: "NewHcsSgwClient (cl_ex conn_gw_absent) = Inr conn_gw_absent \<and>
    Retry (5 * Minute) (DescribeCloudStorageGatewayGateway_attempt h_ex conn_gw_absent ?rq)
      (frame_start\<lparr>response := [], err := None, retryCount := 0\<rparr>)
        = Some (Some (SdkError ''GatewayNotExist''), ?s2)"
    using r by (simp add: cl_ex_def)
  from not_found_is_an_error [of engine_gone w_start vm_a "NotFoundError ''not found''"
      "cl_ex conn_absent" conn_absent frame_start "''sb-1''" "[]" "SdkError ''StorageBundleNotExist''" h_ex]
    h1 h2
  have a: "removeVM engine_gone vm_a w_start
     = logf ErrorLevel (''Failed to remove VM '' @ MustName vm_a @ '': '' @ ''not found'')
         (send (Vm_Remove (MustId vm_a)) w_start) \<and>
   fst (DescribeCloudStorageGatewayStorageBundle h_ex (cl_ex conn_absent) ''sb-1'' frame_start)
     = Returns (None, Some (WrapErrorf
         (Error ''The specified CloudStorageGatewayStorageBundle sb-1 is not found.'')
         NotFoundMsg [Src ProviderERROR]))"
    by (simp add: h_ex_def)
  from not_found_is_an_error [of engine_gone w_start vm_a "NotFoundError ''not found''"
      "cl_ex conn_gw_absent" conn_gw_absent frame_start "''gw-1''" "[]" "SdkError ''GatewayNotExist''"
      h_ex ?s2] h3
  have b: "map_option fst (DescribeCloudStorageGatewayGateway h_ex (cl_ex conn_gw_absent) ''gw-1'' frame_start)
     = Some (Returns (None, Some (WrapErrorf
         (Error ''The specified CloudStorageGateway:Gateway gw-1 is not found.'')
         NotFoundMsg [Src ProviderERROR, Str ''req-7''])))"
    by (simp add: h_ex_def index_def)
  from h1 a b show ?thesis by simp
qed

section \<open>The retry of the describe functions\<close>

lemma linear_waits_Suc:
  "linear_waits a b (Suc n) = linear_waits a b n @ [a + n * b]"
  by (simp add: linear_waits_def)

lemma attempt_cases:
  assumes "DescribeCloudStorageGatewayGateway_attempt h conn rq s = (r, s1)"
  shows "(\<exists>e. r = Some (RetryableError e) \<and> slept s1 = slept s @ [3 * Second + retryCount s * (3 * Second)]
              \<and> retryCount s1 = Suc (retryCount s))
       \<or> ((\<forall>e. r \<noteq> Some (RetryableError e)) \<and> slept s1 = slept s \<and> retryCount s1 = retryCount s)"
  using assms
  by (auto simp: DescribeCloudStorageGatewayGateway_attempt_def DoRequest_def incrementalWait_def Let_def
      split: prod.splits option.splits if_splits)

lemma Retry_loop_waits:
  assumes "slept s = base @ linear_waits (3 * Second) (3 * Second) (retryCount s)"
    and "now s < deadline"
  shows "\<exists>r s'. Retry_loop deadline (DescribeCloudStorageGatewayGateway_attempt h conn rq) s = Some (r, s')
           \<and> slept s' = base @ linear_waits (3 * Second) (3 * Second) (retryCount s')
           \<and> sum_list (base @ linear_waits (3 * Second) (3 * Second) (retryCount s' - 1)) < deadline"
  using assms
proof (induction "deadline - now s" arbitrary: s rule: less_induct)
  case less
  let ?f = "DescribeCloudStorageGatewayGateway_attempt h conn rq"
  let ?L = "linear_waits (3 * Second) (3 * Second)"
  obtain r s1 where f: "?f s = (r, s1)" by (cases "?f s")
  have mono: "sum_list (base @ ?L (retryCount s - 1)) \<le> now s"
  proof (cases "retryCount s")
    case 0
    with less.prems show ?thesis by (simp add: now_def)
  next
    case (Suc n)
    with less.prems show ?thesis by (simp add: now_def linear_waits_Suc)
  qed
  from attempt_cases [OF f] show ?case
  proof (elim disjE conjE exE)
    fix e
    assume r: "r = Some (RetryableError e)"
      and sl: "slept s1 = slept s @ [3 * Second + retryCount s * (3 * Second)]"
      and rc: "retryCount s1 = Suc (retryCount s)"
    have inv1: "slept s1 = base @ ?L (retryCount s1)"
      using sl rc less.prems(1) by (simp add: linear_waits_Suc)
    show ?thesis
    proof (cases "now s1 < deadline")
      case True
      have "now s < now s1" using sl by (simp add: now_def Second_def)
      with True have "deadline - now s1 < deadline - now s" by simp
      from less.hyps [OF this inv1 True] obtain r' s' where
        "Retry_loop deadline ?f s1 = Some (r', s')" "slept s' = base @ ?L (retryCount s')"
        "sum_list (base @ ?L (retryCount s' - 1)) < deadline" by blast
      moreover have "Retry_loop deadline ?f s = Retry_loop deadline ?f s1"
        using f r True by (subst Retry_loop.simps) simp
      ultimately show ?thesis by simp
    next
      case False
      have "Retry_loop deadline ?f s = Some (Some e, s1)"
        using f r False by (subst Retry_loop.simps) simp
      moreover have "sum_list (base @ ?L (retryCount s1 - 1)) < deadline"
        using rc less.prems by (simp add: now_def)
      ultimately show ?thesis using inv1 by simp
    qed
  next
    assume nr: "\<forall>e. r \<noteq> Some (RetryableError e)"
      and sl: "slept s1 = slept s" and rc: "retryCount s1 = retryCount s"
    have "\<exists>r'. Retry_loop deadline ?f s = Some (r', s1)"
      using f nr by (subst Retry_loop.simps) (auto split: option.splits RetryError.splits)
    moreover have "slept s1 = base @ ?L (retryCount s1)" using sl rc less.prems(1) by simp
    moreover have "sum_list (base @ ?L (retryCount s1 - 1)) < deadline"
      using mono rc less.prems(2) by simp
    ultimately show ?thesis by blast
  qed
qed

lemma sum_linear_waits_mono:
  "m \<le> n \<Longrightarrow> sum_list (linear_waits a b m) \<le> sum_list (linear_waits a b n)"
proof (induction n)
  case 0
  then show ?case by simp
next
  case (Suc n)
  then show ?case by (cases "m = Suc n") (auto simp: linear_waits_Suc)
qed

lemma sum_linear_waits_closed:
  "2 * sum_list (linear_waits a b n) = 2 * n * a + n * (n - 1) * b"
proof (induction n)
  case 0
  show ?case by (simp add: linear_waits_def)
next
  case (Suc n)
  show ?case
  proof (cases n)
    case 0
    then show ?thesis by (simp add: linear_waits_def)
  next
    case (Suc k)
    with Suc.IH show ?thesis by (simp add: linear_waits_Suc algebra_simps)
  qed
qed

lemma sum_linear_waits_14:
  "sum_list (linear_waits (3 * Second) (3 * Second) 14) = 5 * Minute + 15 * Second"
  using sum_linear_waits_closed [of "3 * Second" "3 * Second" 14]
  by (simp add: Minute_def Second_def)

lemma sorted_linear_waits: "sorted (linear_waits a b n)"
  by (simp add: linear_waits_def sorted_map sorted_wrt_iff_nth_less)

lemma Retry_waits:
  assumes "retryCount s = 0"
  shows "\<exists>r s' n. Retry (5 * Minute) (DescribeCloudStorageGatewayGateway_attempt h conn rq) s = Some (r, s')
           \<and> slept s' = slept s @ linear_waits (3 * Second) (3 * Second) n
           \<and> sorted (linear_waits (3 * Second) (3 * Second) n)
           \<and> sum_list (linear_waits (3 * Second) (3 * Second) n) \<le> 5 * Minute + 15 * Second"
proof -
  let ?L = "linear_waits (3 * Second) (3 * Second)"
  have a: "slept s = slept s @ ?L (retryCount s)" using assms by (simp add: linear_waits_def)
  have b: "now s < now s + 5 * Minute" by (simp add: Minute_def Second_def)
  from Retry_loop_waits [of s "slept s" "now s + 5 * Minute" h conn rq, OF a b]
  obtain r s' where run: "Retry_loop (now s + 5 * Minute) (DescribeCloudStorageGatewayGateway_attempt h conn rq) s = Some (r, s')"
    and sl: "slept s' = slept s @ ?L (retryCount s')"
    and bd: "sum_list (slept s @ ?L (retryCount s' - 1)) < now s + 5 * Minute" by blast
  from bd have lt: "sum_list (?L (retryCount s' - 1)) < 5 * Minute" by (simp add: now_def)
  have "retryCount s' \<le> 14"
  proof (rule ccontr)
    assume "\<not> retryCount s' \<le> 14"
    then have "14 \<le> retryCount s' - 1" by simp
    from sum_linear_waits_mono [OF this, of "3 * Second" "3 * Second"] lt
    show False by (simp add: sum_linear_waits_14)
  qed
  from sum_linear_waits_mono [OF this, of "3 * Second" "3 * Second"]
  have "sum_list (?L (retryCount s')) \<le> 5 * Minute + 15 * Second"
    by (simp add: sum_linear_waits_14)
  with run sl show ?thesis
    unfolding Retry_def using sorted_linear_waits by blast
qed

lemma DescribeCloudStorageGatewayGateway_slept:
  assumes "Retry (5 * Minute)
      (DescribeCloudStorageGatewayGateway_attempt h conn
         \<lparr>Action = ''DescribeGateway'', Method = ''POST'', Version = ''2018-05-11'',
          AuthType = ''AK'', Body = [(''GatewayId'', id')], Autoretry = True\<rparr>)
      (s\<lparr>response := [], err := None, retryCount := 0\<rparr>) = Some (e, s2)"
    and "NewHcsSgwClient cl = Inr conn"
  shows "\<exists>r s'. DescribeCloudStorageGatewayGateway h cl id' s = Some (r, s') \<and> slept s' = slept s2"
  using assms
  by (auto simp: DescribeCloudStorageGatewayGateway_def Let_def addDebug_def
      split: option.splits sum.splits jvalue.splits)

text \<open>
  Claim C7. Every call of \<^verbatim>\<open>DescribeCloudStorageGatewayGateway\<close> returns, whatever the
  connection answers and however often it answers with a retryable error. The waits
  slept during the call are 3 s, 6 s, 9 s and so on: the initial wait of 3 s, and 3 s more
  on each retry, so they never decrease. Their sum is at most 5 min 15 s.
\<close>

theorem DescribeCloudStorageGatewayGateway_waits:
  "\<exists>r s' n. DescribeCloudStorageGatewayGateway h cl id' s = Some (r, s')
      \<and> slept s' = slept s @ linear_waits (3 * Second) (3 * Second) n
      \<and> sorted (linear_waits (3 * Second) (3 * Second) n)
      \<and> sum_list (linear_waits (3 * Second) (3 * Second) n) \<le> 5 * Minute + 15 * Second"
proof (cases "NewHcsSgwClient cl")
  case (Inl e)
  then have "DescribeCloudStorageGatewayGateway h cl id' s
      = Some (Returns (None, Some (WrapError e)), s\<lparr>response := [], err := Some e\<rparr>)"
    by (simp add: DescribeCloudStorageGatewayGateway_def)
  moreover have "slept (s\<lparr>response := [], err := Some e\<rparr>)
      = slept s @ linear_waits (3 * Second) (3 * Second) 0"
    by (simp add: linear_waits_def)
  moreover have "sum_list (linear_waits (3 * Second) (3 * Second) 0) \<le> 5 * Minute + 15 * Second"
    by (simp add: linear_waits_def)
  ultimately show ?thesis using sorted_linear_waits by blast
next
  case (Inr conn)
  let ?rq = "\<lparr>Action = ''DescribeGateway'', Method = ''POST'', Version = ''2018-05-11'',
          AuthType = ''AK'', Body = [(''GatewayId'', id')], Autoretry = True\<rparr>"
  let ?s1 = "s\<lparr>response := [], err := None, retryCount := 0\<rparr>"
  from Retry_waits [of ?s1 h conn ?rq] obtain e s2 n where
    r: "Retry (5 * Minute) (DescribeCloudStorageGatewayGateway_attempt h conn ?rq) ?s1 = Some (e, s2)"
    and sl: "slept s2 = slept ?s1 @ linear_waits (3 * Second) (3 * Second) n"
    and bd: "sum_list (linear_waits (3 * Second) (3 * Second) n) \<le> 5 * Minute + 15 * Second"
    by auto
  from DescribeCloudStorageGatewayGateway_slept [OF r Inr] obtain x s' where
    "DescribeCloudStorageGatewayGateway h cl id' s = Some (x, s')" "slept s' = slept s2" by blast
  with sl bd show ?thesis using sorted_linear_waits by auto
qed

theorem DescribeCloudStorageGatewayGateway_waits_witness:
  "(\<exists>r s' n. DescribeCloudStorageGatewayGateway h_ex (cl_ex conn_throttled) ''gw-1'' frame_start
                = Some (r, s')
      \<and> slept s' = slept frame_start @ linear_waits (3 * Second) (3 * Second) n
      \<and> sorted (linear_waits (3 * Second) (3 * Second) n)
      \<and> sum_list (linear_waits (3 * Second) (3 * Second) n) \<le> 5 * Minute + 15 * Second) \<and>
   map_option (slept \<circ> snd)
     (DescribeCloudStorageGatewayGateway h_ex (cl_ex conn_throttled) ''gw-1'' frame_start)
     = Some [3000000000, 6000000000, 9000000000, 12000000000, 15000000000, 18000000000,
             21000000000, 24000000000, 27000000000, 30000000000, 33000000000, 36000000000,
             39000000000, 42000000000]"
proof -
  have "map_option (slept \<circ> snd)
     (DescribeCloudStorageGatewayGateway h_ex (cl_ex conn_throttled) ''gw-1'' frame_start)
     = Some [3000000000, 6000000000, 9000000000, 12000000000, 15000000000, 18000000000,
             21000000000, 24000000000, 27000000000, 30000000000, 33000000000, 36000000000,
             39000000000, 42000000000]"
    by (simp add: DescribeCloudStorageGatewayGateway_def Retry_def Retry_loop.simps
        DescribeCloudStorageGatewayGateway_attempt_def DoRequest_def incrementalWait_def now_def
        addDebug_def h_ex_def cl_ex_def conn_throttled_def frame_start_def Second_def Minute_def
        Let_def)
  with DescribeCloudStorageGatewayGateway_waits [of h_ex "cl_ex conn_throttled" "''gw-1''" frame_start]
  show ?thesis by blast
qed

text \<open>
  Claim C6. When the first request of \<^verbatim>\<open>DescribeGateway\<close> fails with an error that
  \<^verbatim>\<open>NeedRetry\<close> does not classify as retryable, the retry returns this error at once:
  it has made this one request and no other, and it has not slept.
\<close>

theorem Retry_non_retryable_first:
  assumes "conn (requests s) rq = (resp, Some e)" and "\<not> NeedRetry h e"
  shows "Retry (5 * Minute) (DescribeGateway_attempt h conn rq) s
           = Some (Some e, s\<lparr>requests := requests s @ [rq], response := resp, err := Some e\<rparr>)"
  using assms unfolding Retry_def
  by (subst Retry_loop.simps) (simp add: DescribeGateway_attempt_def DoRequest_def Let_def)

theorem Retry_non_retryable_first_witness:
  "conn_forbidden (requests frame_start) rq_ex = ([], Some (SdkError ''Forbidden'')) \<and>
   \<not> NeedRetry h_ex (SdkError ''Forbidden'') \<and>
   Retry (5 * Minute) (DescribeGateway_attempt h_ex conn_forbidden rq_ex) frame_start
     = Some (Some (SdkError ''Forbidden''),
             \<lparr>requests = [rq_ex], slept = [], debug = [], retryCount = 0, response = [],
              err = Some (SdkError ''Forbidden'')\<rparr>)"
proof -
  have h1: "conn_forbidden (requests frame_start) rq_ex = ([], Some (SdkError ''Forbidden''))"
    by (simp add: conn_forbidden_def)
  have h2: "\<not> NeedRetry h_ex (SdkError ''Forbidden'')" by (simp add: h_ex_def)
  from Retry_non_retryable_first
      [of conn_forbidden frame_start rq_ex "[]" "SdkError ''Forbidden''" h_ex, OF h1 h2] h1 h2
  show ?thesis by (simp add: frame_start_def)
qed

lemma attempt_eq:
  "DescribeGateway_attempt = DescribeCloudStorageGatewayGateway_attempt"
  by (intro ext) (simp add: DescribeGateway_attempt_def DescribeCloudStorageGatewayGateway_attempt_def)

text \<open>
  Claim C9. \<^verbatim>\<open>DescribeGateway\<close> and \<^verbatim>\<open>DescribeCloudStorageGatewayGateway\<close> give the
  same result and leave the same state behind, for every gateway id, every client, every
  behaviour of the connection and of the helpers, and every state they start in.
\<close>

theorem DescribeGateway_equivalent:
  "DescribeGateway h cl id' s = DescribeCloudStorageGatewayGateway h cl id' s"
  unfolding DescribeGateway_def DescribeCloudStorageGatewayGateway_def attempt_eq ..

theorem DescribeGateway_equivalent_witness:
  "DescribeGateway h_ex (cl_ex conn_forbidden) ''gw-1'' frame_start
     = DescribeCloudStorageGatewayGateway h_ex (cl_ex conn_forbidden) ''gw-1'' frame_start"
  using DescribeGateway_equivalent [of h_ex "cl_ex conn_forbidden" "''gw-1''" frame_start]
  by simp

section \<open>The cached client of Metadata\<close>

lemma Client_times_cached:
  "client m = Some c \<Longrightarrow> Client_times n NewClient m built = (replicate n (Some c, None), m, built)"
  by (induction n) (simp_all add: Client_def)

lemma Client_Region: "Region (fst (snd (Client NewClient m built))) = Region m"
  by (auto simp: Client_def split: prod.splits option.splits)

lemma Client_times_Region: "Region (fst (snd (Client_times n NewClient m built))) = Region m"
proof (induction n arbitrary: m built)
  case 0
  show ?case by simp
next
  case (Suc n)
  obtain r m' b' where c: "Client NewClient m built = (r, m', b')" by (cases "Client NewClient m built")
  with Client_Region [of NewClient m built] have "Region m' = Region m" by simp
  with Suc [of m' b'] c show ?case by (cases "Client_times n NewClient m' b'") auto
qed

text \<open>
  Claim C10. A call of \<^verbatim>\<open>Client\<close> on a \<^verbatim>\<open>Metadata\<close> without a client, for which
  \<^verbatim>\<open>NewClient\<close> returns a client and no error, stores this client, and any number of
  calls that follow return this client and construct nothing: \<open>n + 1\<close> calls in a row
  all return it, after one construction. A call on a \<^verbatim>\<open>Metadata\<close> that has a client
  returns it and changes nothing. A call for which \<^verbatim>\<open>NewClient\<close> returns an error
  returns that error and leaves the \<^verbatim>\<open>Metadata\<close> as it was, without a client. No number
  of calls changes the region.
\<close>

theorem Client_memoizing:
  "(client m = None \<and> NewClient built (Region m) = (Some c, None) \<longrightarrow>
      Client_times (Suc n) NewClient m built
        = (replicate (Suc n) (Some c, None), m\<lparr>client := Some c\<rparr>, built @ [Region m])) \<and>
   (client m = Some c \<longrightarrow> Client NewClient m built = ((Some c, None), m, built)) \<and>
   (client m = None \<and> NewClient built (Region m) = (c', Some e) \<longrightarrow>
      Client NewClient m built = ((None, Some e), m, built @ [Region m])) \<and>
   Region (fst (snd (Client_times n NewClient m built))) = Region m"
proof (intro conjI impI)
  assume a: "client m = None \<and> NewClient built (Region m) = (Some c, None)"
  then have "Client NewClient m built = ((Some c, None), m\<lparr>client := Some c\<rparr>, built @ [Region m])"
    by (simp add: Client_def)
  then show "Client_times (Suc n) NewClient m built
        = (replicate (Suc n) (Some c, None), m\<lparr>client := Some c\<rparr>, built @ [Region m])"
    by (simp add: Client_times_cached [of "m\<lparr>client := Some c\<rparr>" c])
next
  assume "client m = Some c"
  then show "Client NewClient m built = ((Some c, None), m, built)" by (simp add: Client_def)
next
  assume "client m = None \<and> NewClient built (Region m) = (c', Some e)"
  then show "Client NewClient m built = ((None, Some e), m, built @ [Region m])"
    by (simp add: Client_def)
next
  show "Region (fst (snd (Client_times n NewClient m built))) = Region m"
    by (rule Client_times_Region)
qed

theorem Client_memoizing_witness:
  "client (NewMetadata ''cn-hangzhou'' :: nat Metadata) = None \<and>
   NewClient_ok [] (Region (NewMetadata ''cn-hangzhou'' :: nat Metadata)) = (Some 0, None) \<and>
   Client_times (Suc 2) NewClient_ok (NewMetadata ''cn-hangzhou'') []
     = ([(Some 0, None), (Some 0, None), (Some 0, None)],
        \<lparr>client = Some 0, Region = ''cn-hangzhou''\<rparr>, [''cn-hangzhou'']) \<and>
   Client NewClient_fail (NewMetadata ''cn-hangzhou'') []
     = ((None, Some ''no credentials''), NewMetadata ''cn-hangzhou'', [''cn-hangzhou''])"
proof -
  let ?m = "NewMetadata ''cn-hangzhou'' :: nat Metadata"
  have h1: "client ?m = None \<and> NewClient_ok [] (Region ?m) = (Some 0, None)"
    by (simp add: NewMetadata_def NewClient_ok_def)
  have h2: "client ?m = None \<and> NewClient_fail [] (Region ?m) = (None, Some ''no credentials'')"
    by (simp add: NewMetadata_def NewClient_fail_def)
  from Client_memoizing [of ?m NewClient_ok "[]" 0 2] h1
  have a: "Client_times (Suc 2) NewClient_ok ?m [] = (replicate (Suc 2) (Some 0, None), ?m\<lparr>client := Some 0\<rparr>, [] @ [Region ?m])"
    by blast
  from Client_memoizing [of ?m NewClient_fail "[]" 0 0 None "''no credentials''"] h2
  have b: "Client NewClient_fail ?m [] = ((None, Some ''no credentials''), ?m, [] @ [Region ?m])"
    by blast
  from a b h1 show ?thesis by (simp add: NewMetadata_def eval_nat_numeral)
qed

end
